theory Spec2Isabelle
  imports Complex_Main "HOL-Library.Log_Nat"
begin

section \<open>JavaScript numbers\<close>

text \<open>
  A JavaScript number is an IEEE 754 binary64 value: a finite value, which is held as the
  real number it denotes, an infinity or NaN. Every arithmetic operation computes the
  exact result and rounds it to the nearest binary64 value, a tie going to the even
  significand (\<open>round64\<close>). The two zeros are identified: the sign of a zero shows
  only in a division by it, and the one division of the program divides by the width
  of a bounding rectangle.
\<close>

text \<open>
  \<open>ilog2 x\<close> is the exponent of the binade of a positive \<open>x\<close>:
  \<open>2 powi ilog2 x \<le> x < 2 powi (ilog2 x + 1)\<close>.
\<close>

definition ilog2 :: "real \<Rightarrow> int" where
  "ilog2 x = (if 1 \<le> x then bitlen \<lfloor>x\<rfloor> - 1 else - bitlen (\<lceil>1 / x\<rceil> - 1))"

definition round_even :: "real \<Rightarrow> int" where
  "round_even x =
    (let f = \<lfloor>x\<rfloor>; d = x - of_int f
     in if d < 1 / 2 then f else if 1 / 2 < d then f + 1 else if even f then f else f + 1)"

datatype number = Num real | Infinity | NegInfinity | NaN

text \<open>
  The quantum is \<open>2 powi (ilog2 \<bar>x\<bar> - 52)\<close> (53 significant bits), and \<open>2 powi (- 1074)\<close>
  in the subnormal range; a result of magnitude \<open>2 ^ 1024\<close> or more is an infinity.
\<close>

definition round64 :: "real \<Rightarrow> number" where
  "round64 x =
    (if x = 0 then Num 0
     else
       let e = max (ilog2 \<bar>x\<bar> - 52) (- 1074);
           y = of_int (round_even (x / 2 powi e)) * 2 powi e
       in if 2 ^ 1024 \<le> y then Infinity
          else if y \<le> - (2 ^ 1024) then NegInfinity
          else Num y)"

text \<open>
  The operators \<open>+\<close>, \<open>-\<close>, \<open>*\<close>, \<open>/\<close>, \<open><\<close> and \<open><=\<close> of JavaScript on numbers
  (\<open>a > b\<close> is \<open>b < a\<close>, \<open>a >= b\<close> is \<open>b <= a\<close>); a comparison with NaN is false.
\<close>

instantiation number :: "{uminus, plus, minus, times, inverse, ord}"
begin

fun uminus_number :: "number \<Rightarrow> number" where
  "uminus_number (Num x) = Num (- x)"
| "uminus_number Infinity = NegInfinity"
| "uminus_number NegInfinity = Infinity"
| "uminus_number NaN = NaN"

fun plus_number :: "number \<Rightarrow> number \<Rightarrow> number" where
  "plus_number (Num x) (Num y) = round64 (x + y)"
| "plus_number NaN b = NaN"
| "plus_number a NaN = NaN"
| "plus_number Infinity NegInfinity = NaN"
| "plus_number NegInfinity Infinity = NaN"
| "plus_number Infinity b = Infinity"
| "plus_number a Infinity = Infinity"
| "plus_number NegInfinity b = NegInfinity"
| "plus_number a NegInfinity = NegInfinity"

definition minus_number :: "number \<Rightarrow> number \<Rightarrow> number" where
  "minus_number a b = a + (- b)"

fun times_number :: "number \<Rightarrow> number \<Rightarrow> number" where
  "times_number (Num x) (Num y) = round64 (x * y)"
| "times_number NaN b = NaN"
| "times_number a NaN = NaN"
| "times_number Infinity (Num y) =
    (if y = 0 then NaN else if 0 < y then Infinity else NegInfinity)"
| "times_number NegInfinity (Num y) =
    (if y = 0 then NaN else if 0 < y then NegInfinity else Infinity)"
| "times_number (Num x) Infinity =
    (if x = 0 then NaN else if 0 < x then Infinity else NegInfinity)"
| "times_number (Num x) NegInfinity =
    (if x = 0 then NaN else if 0 < x then NegInfinity else Infinity)"
| "times_number Infinity Infinity = Infinity"
| "times_number NegInfinity NegInfinity = Infinity"
| "times_number Infinity NegInfinity = NegInfinity"
| "times_number NegInfinity Infinity = NegInfinity"

fun divide_number :: "number \<Rightarrow> number \<Rightarrow> number" where
  "divide_number (Num x) (Num y) =
    (if y = 0 then (if x = 0 then NaN else if 0 < x then Infinity else NegInfinity)
     else round64 (x / y))"
| "divide_number NaN b = NaN"
| "divide_number a NaN = NaN"
| "divide_number (Num x) Infinity = Num 0"
| "divide_number (Num x) NegInfinity = Num 0"
| "divide_number Infinity (Num y) = (if 0 \<le> y then Infinity else NegInfinity)"
| "divide_number NegInfinity (Num y) = (if 0 \<le> y then NegInfinity else Infinity)"
| "divide_number Infinity b = NaN"
| "divide_number NegInfinity b = NaN"

definition inverse_number :: "number \<Rightarrow> number" where
  "inverse_number a = divide (Num 1) a"

fun less_number :: "number \<Rightarrow> number \<Rightarrow> bool" where
  "less_number (Num x) (Num y) = (x < y)"
| "less_number NaN b = False"
| "less_number a NaN = False"
| "less_number a NegInfinity = False"
| "less_number Infinity b = False"
| "less_number NegInfinity b = True"
| "less_number a Infinity = True"

fun less_eq_number :: "number \<Rightarrow> number \<Rightarrow> bool" where
  "less_eq_number (Num x) (Num y) = (x \<le> y)"
| "less_eq_number NaN b = False"
| "less_eq_number a NaN = False"
| "less_eq_number NegInfinity b = True"
| "less_eq_number a Infinity = True"
| "less_eq_number a NegInfinity = False"
| "less_eq_number Infinity b = False"

instance ..

end

text \<open>
  \<open>Math.round\<close>: the integer nearest to the exact value, a tie going up; it is a
  binary64 value again, and no rounding of a sum is involved.
\<close>

fun Math_round :: "number \<Rightarrow> number" where
  "Math_round (Num x) = Num (of_int \<lfloor>x + 1 / 2\<rfloor>)"
| "Math_round a = a"

text \<open>
  A layout coordinate: a multiple of 1/64 pixel, the layout unit of the rendering
  engines, of magnitude at most \<open>2 ^ 32\<close>. Sums and differences of a few of them are
  binary64 values, so that arithmetic on them is exact.
\<close>

definition onGrid :: "number \<Rightarrow> bool" where
  "onGrid a =
    (case a of
       Num x \<Rightarrow> x * 64 = of_int \<lfloor>x * 64\<rfloor> \<and> - (2 ^ 32) \<le> x \<and> x \<le> 2 ^ 32
     | Infinity \<Rightarrow> False
     | NegInfinity \<Rightarrow> False
     | NaN \<Rightarrow> False)"

text \<open>A real that is a multiple of 1/64.\<close>

definition gridReal :: "real \<Rightarrow> bool" where
  "gridReal x = (x * 64 = of_int \<lfloor>x * 64\<rfloor>)"

section \<open>Data model of the editor component (src/App.tsx)\<close>

text \<open>
  The App component keeps its state in React state cells. Each cell is a field of the
  record \<open>AppState\<close>; a handler is a function from the state before the event to the
  state after it. The object URLs that effects derive from the current and original
  image are not state of their own and are left out.
\<close>

datatype File = File (fileBits: string) (fileName: string) (fileType: string)

datatype Tab = Tab_retouch | Tab_adjust | Tab_filters | Tab_expand | Tab_crop

record ExpandRect =
  rect_top :: number
  rect_left :: number
  rect_width :: number
  rect_height :: number

record DragState =
  handle :: string
  initialRect :: ExpandRect
  initialMouseX :: number
  initialMouseY :: number

text \<open>\<open>Crop\<close> and \<open>PixelCrop\<close> of react-image-crop; a \<open>PixelCrop\<close> has the unit px.\<close>

datatype CropUnit = Unit_px | Unit_percent

record Crop =
  crop_unit :: CropUnit
  crop_x :: number
  crop_y :: number
  crop_width :: number
  crop_height :: number

type_synonym PixelCrop = Crop

record Dims =
  dim_width :: number
  dim_height :: number

record AppState =
  history :: "File list"
  historyIndex :: int
  prompt :: string
  isLoading :: bool
  isUpscaling :: bool
  isImprovingPrompt :: bool
  error :: "string option"
  activeTab :: Tab
  crop :: "Crop option"
  completedCrop :: "PixelCrop option"
  isComparing :: bool
  imageDimensions :: "Dims option"
  expandRect :: "ExpandRect option"
  dragState :: "DragState option"
  retouchReferenceImage :: "File option"
  isGeneratingImage :: bool
  isConfirmModalOpen :: bool

definition initialState :: AppState where
  "initialState =
    \<lparr>history = [], historyIndex = -1, prompt = [], isLoading = False, isUpscaling = False,
     isImprovingPrompt = False, error = None, activeTab = Tab_retouch, crop = None,
     completedCrop = None, isComparing = False, imageDimensions = None, expandRect = None,
     dragState = None, retouchReferenceImage = None, isGeneratingImage = False,
     isConfirmModalOpen = False\<rparr>"

subsection \<open>JavaScript array primitives\<close>

text \<open>\<open>xs.slice(start, end)\<close>: a negative bound counts from the end, both are clamped.\<close>

definition slice_rel :: "nat \<Rightarrow> int \<Rightarrow> nat" where
  "slice_rel len k = (if k < 0 then nat (max (int len + k) 0) else min (nat k) len)"

definition slice :: "'a list \<Rightarrow> int \<Rightarrow> int \<Rightarrow> 'a list" where
  "slice xs start end =
    (let k = slice_rel (length xs) start; final = slice_rel (length xs) end
     in take (final - k) (drop k xs))"

text \<open>\<open>xs[i] ?? null\<close>: a read outside the array gives \<open>undefined\<close>, hence \<open>null\<close>.\<close>

definition at_or_null :: "'a list \<Rightarrow> int \<Rightarrow> 'a option" where
  "at_or_null xs i = (if 0 \<le> i \<and> i < int (length xs) then Some (xs ! nat i) else None)"

section \<open>Edit history\<close>

definition currentImage :: "AppState \<Rightarrow> File option" where
  "currentImage st = at_or_null (history st) (historyIndex st)"

definition originalImage :: "AppState \<Rightarrow> File option" where
  "originalImage st = at_or_null (history st) 0"

definition canUndo :: "AppState \<Rightarrow> bool" where
  "canUndo st = (historyIndex st > 0)"

definition canRedo :: "AppState \<Rightarrow> bool" where
  "canRedo st = (historyIndex st < int (length (history st)) - 1)"

text \<open>
  \<open>addImageToHistory\<close> is a callback closed over \<open>history\<close> and \<open>historyIndex\<close>: the
  first two arguments are the values it captured when it was created, the last one is
  the state its setters act on. Called synchronously, the captured values are those of
  the state itself (\<open>appendImage\<close>).
\<close>

definition addImageToHistory :: "File list \<Rightarrow> int \<Rightarrow> File \<Rightarrow> AppState \<Rightarrow> AppState" where
  "addImageToHistory h i newImageFile st =
    (let newHistory = slice h 0 (i + 1) @ [newImageFile]
     in st\<lparr>history := newHistory, historyIndex := int (length newHistory) - 1,
           crop := None, completedCrop := None, expandRect := None\<rparr>)"

definition appendImage :: "File \<Rightarrow> AppState \<Rightarrow> AppState" where
  "appendImage newImageFile st =
    addImageToHistory (history st) (historyIndex st) newImageFile st"

definition handleImageUpload :: "File \<Rightarrow> AppState \<Rightarrow> AppState" where
  "handleImageUpload file st =
    st\<lparr>error := None, history := [file], historyIndex := 0, activeTab := Tab_retouch,
       crop := None, completedCrop := None, expandRect := None, imageDimensions := None\<rparr>"

definition handleGeneratedImage :: "File \<Rightarrow> AppState \<Rightarrow> AppState" where
  "handleGeneratedImage file st = (handleImageUpload file st)\<lparr>isGeneratingImage := False\<rparr>"

definition handleUndo :: "AppState \<Rightarrow> AppState" where
  "handleUndo st = (if canUndo st then st\<lparr>historyIndex := historyIndex st - 1\<rparr> else st)"

definition handleRedo :: "AppState \<Rightarrow> AppState" where
  "handleRedo st = (if canRedo st then st\<lparr>historyIndex := historyIndex st + 1\<rparr> else st)"

definition handleReset :: "AppState \<Rightarrow> AppState" where
  "handleReset st =
    (if length (history st) > 0 then st\<lparr>historyIndex := 0, error := None\<rparr> else st)"

definition handleUploadNew :: "AppState \<Rightarrow> AppState" where
  "handleUploadNew st =
    st\<lparr>history := [], historyIndex := -1, error := None, prompt := [],
       retouchReferenceImage := None, imageDimensions := None\<rparr>"

text \<open>
  \<open>onLoad\<close> of the image element, with the \<open>naturalWidth\<close> and \<open>naturalHeight\<close> of
  the image that has loaded: recorded only while \<open>imageDimensions\<close> is empty.
\<close>

definition handleImageLoad :: "number \<Rightarrow> number \<Rightarrow> AppState \<Rightarrow> AppState" where
  "handleImageLoad naturalWidth naturalHeight st =
    (if imageDimensions st = None
     then st\<lparr>imageDimensions :=
             Some \<lparr>dim_width = naturalWidth, dim_height = naturalHeight\<rparr>\<rparr>
     else st)"

text \<open>A click on one of the tab buttons.\<close>

definition selectTab :: "Tab \<Rightarrow> AppState \<Rightarrow> AppState" where
  "selectTab tab st = st\<lparr>activeTab := tab\<rparr>"

text \<open>The history invariant of the data model.\<close>

definition history_inv :: "AppState \<Rightarrow> bool" where
  "history_inv st =
    ((length (history st) > 0 \<longrightarrow>
        0 \<le> historyIndex st \<and> historyIndex st < int (length (history st)))
     \<and> (historyIndex st = -1 \<longleftrightarrow> length (history st) = 0))"

section \<open>Expand frame geometry\<close>

text \<open>
  \<open>getBoundingClientRect()\<close> of the image element and of its container; a handler
  receives \<open>None\<close> for a ref whose \<open>current\<close> is null.
\<close>

record DOMRect =
  dom_top :: number
  dom_left :: number
  dom_width :: number
  dom_height :: number

text \<open>\<open>handle.includes(c)\<close> for a one-character string \<open>c\<close>.\<close>

definition str_includes :: "string \<Rightarrow> char \<Rightarrow> bool" where
  "str_includes s c = (c \<in> set s)"

text \<open>The effect that runs when \<open>activeTab\<close> changes (after its 50 ms timer).\<close>

definition expandTabEffect :: "DOMRect option \<Rightarrow> DOMRect option \<Rightarrow> AppState \<Rightarrow> AppState" where
  "expandTabEffect imgRef imageContainerRef st =
    (if activeTab st = Tab_expand then
       (if imgRef \<noteq> None \<and> imageContainerRef \<noteq> None then
          let imgRect = the imgRef; containerRect = the imageContainerRef
          in st\<lparr>expandRect := Some
                \<lparr>rect_top = dom_top imgRect - dom_top containerRect,
                 rect_left = dom_left imgRect - dom_left containerRect,
                 rect_width = dom_width imgRect,
                 rect_height = dom_height imgRect\<rparr>\<rparr>
        else st)
     else st\<lparr>expandRect := None\<rparr>)"

definition handleExpandMouseDown :: "number \<Rightarrow> number \<Rightarrow> string \<Rightarrow> AppState \<Rightarrow> AppState" where
  "handleExpandMouseDown clientX clientY h st =
    (case expandRect st of
       Some r \<Rightarrow> st\<lparr>dragState := Some
           \<lparr>handle = h, initialRect = r, initialMouseX = clientX, initialMouseY = clientY\<rparr>\<rparr>
     | None \<Rightarrow> st)"

definition handleMouseMove ::
  "DOMRect option \<Rightarrow> DOMRect option \<Rightarrow> number \<Rightarrow> number \<Rightarrow> AppState \<Rightarrow> AppState" where
  "handleMouseMove imgRef imageContainerRef clientX clientY st =
    (if dragState st = None \<or> imgRef = None \<or> imageContainerRef = None then st
     else
       let d = the (dragState st);
           deltaX = clientX - initialMouseX d;
           deltaY = clientY - initialMouseY d;
           imgRect = the imgRef;
           containerRect = the imageContainerRef;
           imgTop = dom_top imgRect - dom_top containerRect;
           imgLeft = dom_left imgRect - dom_left containerRect;
           imgRight = imgLeft + dom_width imgRect;
           imgBottom = imgTop + dom_height imgRect;
           r = initialRect d;
           newTop = (if str_includes (handle d) CHR ''n'' then rect_top r + deltaY
                     else rect_top r);
           newBottom = (if str_includes (handle d) CHR ''s''
                        then rect_top r + rect_height r + deltaY
                        else rect_top r + rect_height r);
           newLeft = (if str_includes (handle d) CHR ''w'' then rect_left r + deltaX
                      else rect_left r);
           newRight = (if str_includes (handle d) CHR ''e''
                       then rect_left r + rect_width r + deltaX
                       else rect_left r + rect_width r);
           newTop = (if newTop > imgTop then imgTop else newTop);
           newLeft = (if newLeft > imgLeft then imgLeft else newLeft);
           newRight = (if newRight < imgRight then imgRight else newRight);
           newBottom = (if newBottom < imgBottom then imgBottom else newBottom)
       in st\<lparr>expandRect := Some
             \<lparr>rect_top = newTop, rect_left = newLeft,
              rect_width = newRight - newLeft, rect_height = newBottom - newTop\<rparr>\<rparr>)"


text \<open>A drag: the pointer-moves between one pointer-down and the pointer-up, in order.\<close>

fun pointerMoves ::
  "DOMRect option \<Rightarrow> DOMRect option \<Rightarrow> (number \<times> number) list \<Rightarrow> AppState \<Rightarrow> AppState" where
  "pointerMoves imgRef imageContainerRef [] st = st"
| "pointerMoves imgRef imageContainerRef (p # ps) st =
    pointerMoves imgRef imageContainerRef ps
      (handleMouseMove imgRef imageContainerRef (fst p) (snd p) st)"

text \<open>
  The expand rectangle contains the displayed image, whose position is taken relative
  to the container as \<open>handleMouseMove\<close> does; the sums and differences are those of
  JavaScript, as a test of the property would compute them.
\<close>

definition containsImage :: "ExpandRect \<Rightarrow> DOMRect \<Rightarrow> DOMRect \<Rightarrow> bool" where
  "containsImage r imgRect containerRect =
    (rect_top r \<le> dom_top imgRect - dom_top containerRect
     \<and> rect_left r \<le> dom_left imgRect - dom_left containerRect
     \<and> rect_left r + rect_width r
         \<ge> dom_left imgRect - dom_left containerRect + dom_width imgRect
     \<and> rect_top r + rect_height r
         \<ge> dom_top imgRect - dom_top containerRect + dom_height imgRect)"

text \<open>Rectangles whose four coordinates are layout coordinates.\<close>

definition gridRect :: "ExpandRect \<Rightarrow> bool" where
  "gridRect r =
    (onGrid (rect_top r) \<and> onGrid (rect_left r) \<and> onGrid (rect_width r)
     \<and> onGrid (rect_height r))"

definition gridDOMRect :: "DOMRect \<Rightarrow> bool" where
  "gridDOMRect r =
    (onGrid (dom_top r) \<and> onGrid (dom_left r) \<and> onGrid (dom_width r)
     \<and> onGrid (dom_height r))"

text \<open>\<open>newDimensions\<close> and \<open>isExpanded\<close> of the ExpandPanel component.\<close>

definition newDimensions ::
  "Dims option \<Rightarrow> ExpandRect option \<Rightarrow> DOMRect option \<Rightarrow> (number \<times> number) option" where
  "newDimensions imageDims expRect displayedImageRect =
    (if imageDims = None \<or> expRect = None \<or> displayedImageRect = None then None
     else
       let scale = dim_width (the imageDims) / dom_width (the displayedImageRect);
           targetWidth = Math_round (rect_width (the expRect) * scale);
           targetHeight = Math_round (rect_height (the expRect) * scale)
       in Some (targetWidth, targetHeight))"

definition isExpanded :: "Dims option \<Rightarrow> ExpandRect option \<Rightarrow> DOMRect option \<Rightarrow> bool" where
  "isExpanded imageDims expRect displayedImageRect =
    (case newDimensions imageDims expRect displayedImageRect of
       None \<Rightarrow> False
     | Some nd \<Rightarrow>
        (case imageDims of
           None \<Rightarrow> False
         | Some dims \<Rightarrow> fst nd > dim_width dims \<or> snd nd > dim_height dims))"

section \<open>Actions against the external collaborator\<close>

subsection \<open>Strings and data URLs\<close>

text \<open>
  A \<open>char\<close> stands for a code unit below 256. \<open>trim\<close> removes the white space and
  line terminators of that range from both ends.
\<close>

definition isWhiteSpace :: "char \<Rightarrow> bool" where
  "isWhiteSpace c = (of_char c \<in> {9, 10, 11, 12, 13, 32, 160 :: nat})"

definition trim :: "string \<Rightarrow> string" where
  "trim s = rev (dropWhile isWhiteSpace (rev (dropWhile isWhiteSpace s)))"

text \<open>\<open>s.split(c)\<close> for a one-character separator.\<close>

fun split :: "string \<Rightarrow> char \<Rightarrow> string list" where
  "split [] c = [[]]"
| "split (x # xs) c =
    (if x = c then [] # split xs c
     else (case split xs c of y # ys \<Rightarrow> (x # y) # ys | [] \<Rightarrow> [[x]]))"

text \<open>
  \<open>s.match(/:(.*?);/)\<close>, giving the first group: from the leftmost colon that is
  followed, with no line terminator in between, by a semicolon, the text up to the first
  such semicolon.
\<close>

definition uptoSemicolon :: "string \<Rightarrow> string option" where
  "uptoSemicolon s =
    (let g = takeWhile (\<lambda>c. c \<noteq> CHR '';'' \<and> of_char c \<notin> {10, 13 :: nat}) s
     in (case drop (length g) s of
           [] \<Rightarrow> None
         | c # _ \<Rightarrow> if c = CHR '';'' then Some g else None))"

fun matchMime :: "string \<Rightarrow> string option" where
  "matchMime [] = None"
| "matchMime (c # cs) =
    (if c = CHR '':'' then
       (case uptoSemicolon cs of Some g \<Rightarrow> Some g | None \<Rightarrow> matchMime cs)
     else matchMime cs)"

text \<open>\<open>atob\<close>: forgiving base64 decoding; \<open>None\<close> where the browser throws.\<close>

definition base64Value :: "char \<Rightarrow> nat option" where
  "base64Value c =
    (let n = (of_char c :: nat)
     in if 65 \<le> n \<and> n \<le> 90 then Some (n - 65)
        else if 97 \<le> n \<and> n \<le> 122 then Some (n - 71)
        else if 48 \<le> n \<and> n \<le> 57 then Some (n + 4)
        else if n = 43 then Some 62
        else if n = 47 then Some 63
        else None)"

fun base64Bytes :: "nat list \<Rightarrow> nat list" where
  "base64Bytes (a # b # c # d # rest) =
    (let n = ((a * 64 + b) * 64 + c) * 64 + d
     in (n div 65536) # (n div 256 mod 256) # (n mod 256) # base64Bytes rest)"
| "base64Bytes [a, b, c] = (let n = (a * 64 + b) * 64 + c in [n div 1024, n div 4 mod 256])"
| "base64Bytes [a, b] = [(a * 64 + b) div 16]"
| "base64Bytes [a] = []"
| "base64Bytes [] = []"

definition stripPadding :: "string \<Rightarrow> string" where
  "stripPadding s =
    (if length s mod 4 = 0 then
       (if 2 \<le> length s \<and> drop (length s - 2) s = ''=='' then take (length s - 2) s
        else if 1 \<le> length s \<and> drop (length s - 1) s = ''='' then take (length s - 1) s
        else s)
     else s)"

definition atob :: "string \<Rightarrow> string option" where
  "atob data =
    (let s = stripPadding
               (filter (\<lambda>c. of_char c \<notin> {9, 10, 12, 13, 32 :: nat}) data)
     in if length s mod 4 = 1 then None
        else if list_ex (\<lambda>c. base64Value c = None) s then None
        else Some (map char_of (base64Bytes (map (\<lambda>c. the (base64Value c)) s))))"

text \<open>
  What the handlers read from the runtime after their call has settled: the decimal
  text of \<open>Date.now()\<close>, and the message of the exception that \<open>atob\<close> throws, should
  it throw (the text is the runtime's own and differs with the cause).
\<close>

record Runtime =
  dateNow :: string
  atobMessage :: string

text \<open>What a \<open>catch\<close> clause receives: an \<open>Error\<close> with its message, or another value.\<close>

text \<open>
  The \<open>type\<close> that \<open>new File(bits, name, {type})\<close> stores: lower-cased, or empty when
  a character lies outside the printable ASCII range.
\<close>

definition asciiLower :: "char \<Rightarrow> char" where
  "asciiLower c =
    (let n = (of_char c :: nat) in if 65 \<le> n \<and> n \<le> 90 then char_of (n + 32) else c)"

definition storedType :: "string \<Rightarrow> string" where
  "storedType t =
    (if list_ex (\<lambda>c. (of_char c :: nat) < 32 \<or> 126 < (of_char c :: nat)) t then []
     else map asciiLower t)"

datatype Thrown = Error string | NotAnError

definition errorMessage :: "Thrown \<Rightarrow> string" where
  "errorMessage err =
    (case err of Error m \<Rightarrow> m | NotAnError \<Rightarrow> ''An unknown error occurred.'')"

definition dataURLtoFile :: "Runtime \<Rightarrow> string \<Rightarrow> string \<Rightarrow> Thrown + File" where
  "dataURLtoFile env dataurl filename =
    (let arr = split dataurl CHR '',''
     in if length arr < 2 then Inl (Error ''Invalid data URL'')
        else
          (case matchMime (arr ! 0) of
             None \<Rightarrow> Inl (Error ''Could not parse MIME type from data URL'')
           | Some mime \<Rightarrow>
               if mime = [] then Inl (Error ''Could not parse MIME type from data URL'')
               else
                 (case atob (arr ! 1) of
                    None \<Rightarrow> Inl (Error (atobMessage env))
                  | Some bstr \<Rightarrow> Inr (File bstr filename (storedType mime)))))"

subsection \<open>The collaborator's calls and their outcomes\<close>

text \<open>
  A call to the service module, named after the function called, with its arguments.
  The service is outside the model: a handler that reaches its \<open>await\<close> returns the
  call, and the rest of the handler runs on the call's outcome.
\<close>

datatype Call =
    generateRetouchedImage File string "File option"
  | generateFilteredImage File string
  | generateAdjustedImage File string
  | generateExpandedImage File "number \<times> number" "number \<times> number"
  | upscaleImage File

datatype Outcome = Rejected Thrown | Resolved string

text \<open>
  The value of \<open>dataURLtoFile(await call, prefix + Date.now() + '.png')\<close> inside the
  \<open>try\<close> block.
\<close>

definition awaitedFile :: "string \<Rightarrow> Outcome \<Rightarrow> Runtime \<Rightarrow> Thrown + File" where
  "awaitedFile prefix outcome env =
    (case outcome of
       Rejected err \<Rightarrow> Inl err
     | Resolved url \<Rightarrow> dataURLtoFile env url (prefix @ dateNow env @ ''.png''))"

subsection \<open>Handlers: the part before the await, and the part after it\<close>

text \<open>
  The part after the \<open>await\<close> (\<open>_settled\<close>) takes the history and index captured by
  the \<open>addImageToHistory\<close> the handler closed over, and acts on the state at the time
  the call settles.
\<close>

definition handleGenerate :: "AppState \<Rightarrow> AppState \<times> Call option" where
  "handleGenerate st =
    (case currentImage st of
       None \<Rightarrow> (st\<lparr>error := Some ''No image loaded to edit.''\<rparr>, None)
     | Some cur \<Rightarrow>
        if trim (prompt st) = []
        then (st\<lparr>error := Some ''Please enter a description for your edit.''\<rparr>, None)
        else (st\<lparr>isLoading := True, error := None\<rparr>,
              Some (generateRetouchedImage cur (prompt st) (retouchReferenceImage st))))"

definition handleGenerate_settled ::
  "File list \<Rightarrow> int \<Rightarrow> Outcome \<Rightarrow> Runtime \<Rightarrow> AppState \<Rightarrow> AppState" where
  "handleGenerate_settled h i outcome env st =
    (case awaitedFile ''edited-'' outcome env of
       Inr newImageFile \<Rightarrow>
         (addImageToHistory h i newImageFile st)\<lparr>retouchReferenceImage := None\<rparr>
     | Inl err \<Rightarrow>
         st\<lparr>error := Some (''Failed to generate the image. '' @ errorMessage err)\<rparr>)
    \<lparr>isLoading := False\<rparr>"

definition handleApplyFilter :: "string \<Rightarrow> AppState \<Rightarrow> AppState \<times> Call option" where
  "handleApplyFilter filterPrompt st =
    (case currentImage st of
       None \<Rightarrow> (st\<lparr>error := Some ''No image loaded to apply a filter to.''\<rparr>, None)
     | Some cur \<Rightarrow>
        (st\<lparr>isLoading := True, error := None\<rparr>,
         Some (generateFilteredImage cur filterPrompt)))"

definition handleApplyFilter_settled ::
  "File list \<Rightarrow> int \<Rightarrow> Outcome \<Rightarrow> Runtime \<Rightarrow> AppState \<Rightarrow> AppState" where
  "handleApplyFilter_settled h i outcome env st =
    (case awaitedFile ''filtered-'' outcome env of
       Inr newImageFile \<Rightarrow> addImageToHistory h i newImageFile st
     | Inl err \<Rightarrow>
         st\<lparr>error := Some (''Failed to apply the filter. '' @ errorMessage err)\<rparr>)
    \<lparr>isLoading := False\<rparr>"

definition handleApplyAdjustment :: "string \<Rightarrow> AppState \<Rightarrow> AppState \<times> Call option" where
  "handleApplyAdjustment adjustmentPrompt st =
    (case currentImage st of
       None \<Rightarrow> (st\<lparr>error := Some ''No image loaded to apply an adjustment to.''\<rparr>, None)
     | Some cur \<Rightarrow>
        (st\<lparr>isLoading := True, error := None\<rparr>,
         Some (generateAdjustedImage cur adjustmentPrompt)))"

definition handleApplyAdjustment_settled ::
  "File list \<Rightarrow> int \<Rightarrow> Outcome \<Rightarrow> Runtime \<Rightarrow> AppState \<Rightarrow> AppState" where
  "handleApplyAdjustment_settled h i outcome env st =
    (case awaitedFile ''adjusted-'' outcome env of
       Inr newImageFile \<Rightarrow> addImageToHistory h i newImageFile st
     | Inl err \<Rightarrow>
         st\<lparr>error := Some (''Failed to apply the adjustment. '' @ errorMessage err)\<rparr>)
    \<lparr>isLoading := False\<rparr>"

text \<open>
  \<open>handleApplyExpand\<close> takes the natural size from the \<open>imageDimensions\<close> cell.
  \<open>handleImageLoad\<close> fills the cell while it is empty, \<open>handleImageUpload\<close> and
  \<open>handleUploadNew\<close> empty it, and \<open>addImageToHistory\<close> leaves it as it is.
\<close>

definition handleApplyExpand ::
  "DOMRect option \<Rightarrow> DOMRect option \<Rightarrow> AppState \<Rightarrow> AppState \<times> Call option" where
  "handleApplyExpand imgRef imageContainerRef st =
    (if currentImage st = None \<or> expandRect st = None \<or> imgRef = None
        \<or> imageDimensions st = None \<or> imageContainerRef = None
     then (st\<lparr>error := Some (''Could not determine expansion dimensions. ''
                 @ ''Please try selecting the expand tool again.'')\<rparr>, None)
     else
       let displayedImageRect = the imgRef;
           containerRect = the imageContainerRef;
           er = the (expandRect st);
           dims = the (imageDimensions st);
           scale = dim_width dims / dom_width displayedImageRect;
           targetWidth = Math_round (rect_width er * scale);
           targetHeight = Math_round (rect_height er * scale);
           imageOffsetX = Math_round
             ((dom_left displayedImageRect - (dom_left containerRect + rect_left er)) * scale);
           imageOffsetY = Math_round
             ((dom_top displayedImageRect - (dom_top containerRect + rect_top er)) * scale)
       in if targetWidth \<le> dim_width dims \<and> targetHeight \<le> dim_height dims
          then (st\<lparr>error :=
                  Some ''Please expand the frame outwards to generate a larger image.''\<rparr>,
                None)
          else (st\<lparr>isLoading := True, error := None\<rparr>,
                Some (generateExpandedImage (the (currentImage st))
                        (targetWidth, targetHeight) (imageOffsetX, imageOffsetY))))"

definition handleApplyExpand_settled ::
  "File list \<Rightarrow> int \<Rightarrow> Outcome \<Rightarrow> Runtime \<Rightarrow> AppState \<Rightarrow> AppState" where
  "handleApplyExpand_settled h i outcome env st =
    (case awaitedFile ''expanded-'' outcome env of
       Inr newImageFile \<Rightarrow> addImageToHistory h i newImageFile st
     | Inl err \<Rightarrow>
         st\<lparr>error := Some (''Failed to expand the image. '' @ errorMessage err)\<rparr>)
    \<lparr>isLoading := False\<rparr>"

definition handleUpscale :: "AppState \<Rightarrow> AppState \<times> Call option" where
  "handleUpscale st =
    (case currentImage st of
       None \<Rightarrow> (st, None)
     | Some cur \<Rightarrow> (st\<lparr>isUpscaling := True, error := None\<rparr>, Some (upscaleImage cur)))"

definition handleUpscale_settled ::
  "File list \<Rightarrow> int \<Rightarrow> Outcome \<Rightarrow> Runtime \<Rightarrow> AppState \<Rightarrow> AppState" where
  "handleUpscale_settled h i outcome env st =
    (case awaitedFile ''upscaled-'' outcome env of
       Inr newImageFile \<Rightarrow> addImageToHistory h i newImageFile st
     | Inl err \<Rightarrow>
         st\<lparr>error := Some (''Failed to upscale image. '' @ errorMessage err)\<rparr>)
    \<lparr>isUpscaling := False\<rparr>"

text \<open>Two states with the same history sequence and cursor.\<close>

definition sameHistory :: "AppState \<Rightarrow> AppState \<Rightarrow> bool" where
  "sameHistory st st' = (history st' = history st \<and> historyIndex st' = historyIndex st)"

subsection \<open>Submitting controls and calls in flight\<close>

text \<open>
  The controls that submit an action, with the JSX attributes that decide whether a
  click reaches the handler. The filter and adjustment panels keep their active prompt
  in state of their own; it is the argument of their control.
\<close>

datatype Control =
    GenerateButton
  | PromptInputEnter
  | ApplyFilterButton string
  | ApplyAdjustmentButton string
  | GenerateExpansionButton
  | UpscaleButton

text \<open>\<open>renderContent\<close> shows the error view while \<open>error\<close> is a non-empty string.\<close>

definition errorShown :: "AppState \<Rightarrow> bool" where
  "errorShown st = (case error st of None \<Rightarrow> False | Some m \<Rightarrow> m \<noteq> [])"

definition editorShown :: "AppState \<Rightarrow> bool" where
  "editorShown st = (\<not> errorShown st \<and> currentImage st \<noteq> None)"

definition rendered :: "Control \<Rightarrow> AppState \<Rightarrow> bool" where
  "rendered c st =
    (editorShown st \<and>
     (case c of
        GenerateButton \<Rightarrow> activeTab st = Tab_retouch
      | PromptInputEnter \<Rightarrow> activeTab st = Tab_retouch
      | ApplyFilterButton p \<Rightarrow> activeTab st = Tab_filters \<and> p \<noteq> []
      | ApplyAdjustmentButton p \<Rightarrow> activeTab st = Tab_adjust \<and> p \<noteq> []
      | GenerateExpansionButton \<Rightarrow> activeTab st = Tab_expand
      | UpscaleButton \<Rightarrow> True))"

definition disabled :: "DOMRect option \<Rightarrow> Control \<Rightarrow> AppState \<Rightarrow> bool" where
  "disabled imgRef c st =
    (case c of
       GenerateButton \<Rightarrow> isLoading st \<or> trim (prompt st) = []
     | PromptInputEnter \<Rightarrow> isLoading st \<or> isImprovingPrompt st
     | ApplyFilterButton p \<Rightarrow> isLoading st \<or> trim p = []
     | ApplyAdjustmentButton p \<Rightarrow> isLoading st \<or> trim p = []
     | GenerateExpansionButton \<Rightarrow>
         isLoading st \<or> \<not> isExpanded (imageDimensions st) (expandRect st) imgRef
     | UpscaleButton \<Rightarrow> isUpscaling st \<or> isLoading st)"

definition onActivate ::
  "DOMRect option \<Rightarrow> DOMRect option \<Rightarrow> Control \<Rightarrow> AppState \<Rightarrow> AppState \<times> Call option" where
  "onActivate imgRef imageContainerRef c st =
    (case c of
       GenerateButton \<Rightarrow> handleGenerate st
     | PromptInputEnter \<Rightarrow> handleGenerate st
     | ApplyFilterButton p \<Rightarrow> if p \<noteq> [] then handleApplyFilter p st else (st, None)
     | ApplyAdjustmentButton p \<Rightarrow>
         if p \<noteq> [] then handleApplyAdjustment p st else (st, None)
     | GenerateExpansionButton \<Rightarrow> handleApplyExpand imgRef imageContainerRef st
     | UpscaleButton \<Rightarrow> handleUpscale st)"

text \<open>The "Try Again" button of the error view.\<close>

definition handleTryAgain :: "AppState \<Rightarrow> AppState" where
  "handleTryAgain st =
    (if errorShown st
     then st\<lparr>error := None, isLoading := False, isUpscaling := False,
             isImprovingPrompt := False\<rparr>
     else st)"

text \<open>
  A call that has not settled yet, with the history and index that the handler's
  \<open>addImageToHistory\<close> captured: those of the render in which the control was
  activated.
\<close>

record Pending =
  call :: Call
  capturedHistory :: "File list"
  capturedIndex :: int

record Sys =
  app :: AppState
  inFlight :: "Pending list"

definition activate :: "DOMRect option \<Rightarrow> DOMRect option \<Rightarrow> Control \<Rightarrow> Sys \<Rightarrow> Sys" where
  "activate imgRef imageContainerRef c sys =
    (if rendered c (app sys) \<and> \<not> disabled imgRef c (app sys) then
       (case onActivate imgRef imageContainerRef c (app sys) of
          (st, None) \<Rightarrow> sys\<lparr>app := st\<rparr>
        | (st, Some cl) \<Rightarrow>
            \<lparr>app = st,
             inFlight = inFlight sys @
               [\<lparr>call = cl, capturedHistory = history (app sys),
                 capturedIndex = historyIndex (app sys)\<rparr>]\<rparr>)
     else sys)"

definition tryAgain :: "Sys \<Rightarrow> Sys" where
  "tryAgain sys = sys\<lparr>app := handleTryAgain (app sys)\<rparr>"

definition settled :: "Pending \<Rightarrow> Outcome \<Rightarrow> Runtime \<Rightarrow> AppState \<Rightarrow> AppState" where
  "settled p outcome env st =
    (case call p of
       generateRetouchedImage img pr ref \<Rightarrow>
         handleGenerate_settled (capturedHistory p) (capturedIndex p) outcome env st
     | generateFilteredImage img pr \<Rightarrow>
         handleApplyFilter_settled (capturedHistory p) (capturedIndex p) outcome env st
     | generateAdjustedImage img pr \<Rightarrow>
         handleApplyAdjustment_settled (capturedHistory p) (capturedIndex p) outcome env st
     | generateExpandedImage img target offset \<Rightarrow>
         handleApplyExpand_settled (capturedHistory p) (capturedIndex p) outcome env st
     | upscaleImage img \<Rightarrow>
         handleUpscale_settled (capturedHistory p) (capturedIndex p) outcome env st)"

text \<open>The \<open>k\<close>-th call in flight settles.\<close>

definition settle :: "nat \<Rightarrow> Outcome \<Rightarrow> Runtime \<Rightarrow> Sys \<Rightarrow> Sys" where
  "settle k outcome env sys =
    (if k < length (inFlight sys) then
       \<lparr>app = settled (inFlight sys ! k) outcome env (app sys),
        inFlight = take k (inFlight sys) @ drop (Suc k) (inFlight sys)\<rparr>
     else sys)"

section \<open>Example inputs\<close>

definition imageA :: File where
  "imageA = File ''A'' ''a.png'' ''image/png''"

definition imageB :: File where
  "imageB = File ''B'' ''b.png'' ''image/png''"

definition exampleRuntime :: Runtime where
  "exampleRuntime = \<lparr>dateNow = ''17'', atobMessage = ''not correctly encoded''\<rparr>"

text \<open>
  A 1000 x 800 image, uploaded and loaded, displayed at 500 x 400, 20 pixels from the
  left edge of its container, with the expand tab open.
\<close>

definition exampleImgRect :: DOMRect where
  "exampleImgRect =
    \<lparr>dom_top = Num 10, dom_left = Num 20, dom_width = Num 500, dom_height = Num 400\<rparr>"

definition exampleContainerRect :: DOMRect where
  "exampleContainerRect =
    \<lparr>dom_top = Num 10, dom_left = Num 0, dom_width = Num 540, dom_height = Num 400\<rparr>"

definition exampleLoaded :: AppState where
  "exampleLoaded =
    handleImageLoad (Num 1000) (Num 800) (handleImageUpload imageA initialState)"

definition exampleExpandState :: AppState where
  "exampleExpandState =
    expandTabEffect (Some exampleImgRect) (Some exampleContainerRect)
      (selectTab Tab_expand exampleLoaded)"





text \<open>
  An image displayed 500.3 pixels wide (the binary64 value nearest to it), 8.5 pixels
  from the left edge of its container, and a drag of the west handle of the rectangle
  around it.
\<close>

definition exampleOffGridRect :: DOMRect where
  "exampleOffGridRect =
    \<lparr>dom_top = Num 0, dom_left = Num (17 / 2),
     dom_width = Num (8801370678021325 / 2 ^ 44), dom_height = Num 400\<rparr>"

definition exampleOffGridContainer :: DOMRect where
  "exampleOffGridContainer =
    \<lparr>dom_top = Num 0, dom_left = Num 0, dom_width = Num 600, dom_height = Num 400\<rparr>"

definition exampleOffGridState :: AppState where
  "exampleOffGridState =
    expandTabEffect (Some exampleOffGridRect) (Some exampleOffGridContainer)
      (selectTab Tab_expand exampleLoaded)"

text \<open>An editor with one image and a prompt typed in, nothing in flight.\<close>

definition exampleSys :: Sys where
  "exampleSys =
    \<lparr>app = initialState\<lparr>history := [imageA], historyIndex := 0, prompt := ''sky''\<rparr>,
     inFlight = []\<rparr>"

text \<open>An editor with two snapshots, the cursor on the second, and a prompt typed in.\<close>

definition exampleTwo :: AppState where
  "exampleTwo =
    initialState\<lparr>history := [imageA, imageB], historyIndex := 1, prompt := ''sky''\<rparr>"

section \<open>Properties of the number arithmetic\<close>

lemma powi_nonneg: "0 \<le> n \<Longrightarrow> (2::real) powi n = 2 ^ nat n"
  by (simp add: power_int_def)

lemma powi_neg: "0 \<le> n \<Longrightarrow> (2::real) powi (- n) = 1 / 2 ^ nat n"
  by (simp add: power_int_minus powi_nonneg inverse_eq_divide)

lemma ilog2_ge1:
  assumes "1 \<le> x"
  shows "2 powi (ilog2 x) \<le> x \<and> x < 2 powi (ilog2 x + 1)"
proof -
  let ?m = "\<lfloor>x\<rfloor>"
  have m: "0 < ?m" using assms by linarith
  have bl: "1 \<le> bitlen ?m" using m by (auto simp: bitlen_alt_def)
  have b: "2 ^ nat (bitlen ?m - 1) \<le> ?m" "?m < 2 ^ nat (bitlen ?m)"
    using bitlen_bounds [OF m] by auto
  have e: "ilog2 x = bitlen ?m - 1" using assms by (simp add: ilog2_def)
  have p1: "(2::real) powi (bitlen ?m - 1) = 2 ^ nat (bitlen ?m - 1)"
    using bl by (intro powi_nonneg) simp
  have p2: "(2::real) powi (bitlen ?m) = 2 ^ nat (bitlen ?m)"
    using bl by (intro powi_nonneg) simp
  have lo: "(2::real) ^ nat (bitlen ?m - 1) \<le> x"
    using b(1) le_floor_iff [of "2 ^ nat (bitlen ?m - 1)" x] by simp
  have hi: "x < (2::real) ^ nat (bitlen ?m)"
    using b(2) floor_less_iff [of x "2 ^ nat (bitlen ?m)"] by simp
  show ?thesis using lo hi by (simp add: e p1 p2)
qed

lemma ilog2_lt1:
  assumes "0 < x" "x < 1"
  shows "2 powi (ilog2 x) \<le> x \<and> x < 2 powi (ilog2 x + 1)"
proof -
  let ?y = "1 / x"
  let ?c = "\<lceil>?y\<rceil>"
  have y1: "1 < ?y" using assms by simp
  have c2: "2 \<le> ?c" using y1 by linarith
  let ?k = "bitlen (?c - 1)"
  have cm: "0 < ?c - 1" using c2 by linarith
  have k1: "1 \<le> ?k" using cm by (auto simp: bitlen_alt_def)
  have b: "2 ^ nat (?k - 1) \<le> ?c - 1" "?c - 1 < 2 ^ nat ?k"
    using bitlen_bounds [OF cm] by auto
  have e: "ilog2 x = - ?k" using assms by (simp add: ilog2_def)
  \<comment> \<open>y \<le> 2^k\<close>
  have "?c \<le> 2 ^ nat ?k" using b(2) by linarith
  then have yk: "?y \<le> 2 ^ nat ?k"
    using ceiling_le_iff [of ?y "2 ^ nat ?k"] by simp
  have "2 ^ nat (?k - 1) < ?c" using b(1) by linarith
  then have yk1: "2 ^ nat (?k - 1) < ?y"
    using less_ceiling_iff [of "2 ^ nat (?k - 1)" ?y] by simp
  have pk: "(2::real) powi (- ?k) = 1 / 2 ^ nat ?k"
    using k1 by (intro powi_neg) simp
  have pk1: "(2::real) powi (- ?k + 1) = 1 / 2 ^ nat (?k - 1)"
  proof -
    have "- ?k + 1 = - (?k - 1)" by simp
    moreover have "(2::real) powi (- (?k - 1)) = 1 / 2 ^ nat (?k - 1)"
      using k1 by (intro powi_neg) simp
    ultimately show ?thesis by simp
  qed
  have lo: "1 / 2 ^ nat ?k \<le> x"
    using yk assms(1) by (simp add: field_simps)
  have hi: "x < 1 / 2 ^ nat (?k - 1)"
    using yk1 assms(1) by (simp add: field_simps)
  show ?thesis using lo hi by (simp only: e pk pk1) 
qed

lemma ilog2_bounds:
  assumes "0 < x"
  shows "2 powi (ilog2 x) \<le> x" "x < 2 powi (ilog2 x + 1)"
  using ilog2_ge1 [of x] ilog2_lt1 [of x] assms by (cases "1 \<le> x"; simp)+

lemma powi_less_cancel:
  assumes "(2::real) powi a < 2 powi b"
  shows "a < b"
proof (rule ccontr)
  assume "\<not> a < b"
  then have "b \<le> a" by simp
  then have "(2::real) powi b \<le> 2 powi a" by (intro power_int_increasing) simp_all
  then show False using assms by simp
qed

lemma ilog2_unique:
  assumes "2 powi k \<le> x" "x < 2 powi (k + 1)"
  shows "ilog2 x = k"
proof -
  have x: "0 < x" using assms(1) zero_less_power_int [of "2::real" k] by linarith
  have "(2::real) powi k < 2 powi (ilog2 x + 1)"
    using assms(1) ilog2_bounds(2) [OF x] by linarith
  then have a: "k < ilog2 x + 1" by (rule powi_less_cancel)
  have "(2::real) powi (ilog2 x) < 2 powi (k + 1)"
    using assms(2) ilog2_bounds(1) [OF x] by linarith
  then have b: "ilog2 x < k + 1" by (rule powi_less_cancel)
  show ?thesis using a b by simp
qed

lemma round_even_near: "\<bar>real_of_int (round_even x) - x\<bar> \<le> 1 / 2"
proof -
  have "real_of_int \<lfloor>x\<rfloor> \<le> x" "x < real_of_int \<lfloor>x\<rfloor> + 1" by linarith+
  then show ?thesis by (auto simp: round_even_def Let_def)
qed

lemma round_even_of_int [simp]: "round_even (real_of_int m) = m"
  by (simp add: round_even_def)

text \<open>In the normal range the quantum is fixed by the binade of the argument.\<close>

lemma round64_normal:
  assumes "2 powi k \<le> \<bar>x\<bar>" "\<bar>x\<bar> < 2 powi (k + 1)" "- 1022 \<le> k" "k \<le> 1022"
  shows "round64 x = Num (of_int (round_even (x / 2 powi (k - 52))) * 2 powi (k - 52))"
proof -
  let ?q = "(2::real) powi (k - 52)"
  let ?r = "real_of_int (round_even (x / ?q))"
  have q: "0 < ?q" by simp
  have "0 < (2::real) powi k" by simp
  then have "0 < \<bar>x\<bar>" using assms(1) by linarith
  then have x0: "x \<noteq> 0" by simp
  have e: "ilog2 \<bar>x\<bar> = k" by (rule ilog2_unique [OF assms(1,2)])
  have m: "max (k - 52) (- 1074) = k - 52" using assms(3) by simp
  have near: "\<bar>?r - x / ?q\<bar> \<le> 1 / 2" by (rule round_even_near)
  have "\<bar>?r * ?q - x\<bar> = \<bar>?r - x / ?q\<bar> * ?q"
  proof -
    have "?r * ?q - x = (?r - x / ?q) * ?q" using q by (simp add: field_simps)
    then show ?thesis using q by (simp add: abs_mult)
  qed
  also have "\<dots> \<le> (1 / 2) * ?q"
    using near q by (intro mult_right_mono) simp_all
  finally have err: "\<bar>?r * ?q - x\<bar> \<le> ?q / 2" by simp
  have qb: "?q \<le> 2 powi 970" using assms(4) by (intro power_int_increasing) simp_all
  have xb: "\<bar>x\<bar> < 2 powi 1023"
  proof -
    have "(2::real) powi (k + 1) \<le> 2 powi 1023"
      using assms(4) by (intro power_int_increasing) simp_all
    then show ?thesis using assms(2) by linarith
  qed
  have "\<bar>?r * ?q\<bar> \<le> \<bar>x\<bar> + ?q / 2" using err by linarith
  then have "\<bar>?r * ?q\<bar> < 2 powi 1023 + 2 powi 970 / 2" using xb qb by linarith
  also have "\<dots> < (2::real) ^ 1024" by simp
  finally have yb: "\<bar>?r * ?q\<bar> < 2 ^ 1024" .
  then have "\<not> 2 ^ 1024 \<le> ?r * ?q" "\<not> ?r * ?q \<le> - (2 ^ 1024)" by linarith+
  then show ?thesis
    using x0 by (simp add: round64_def e m Let_def)
qed

lemma round64_rel:
  assumes "2 powi (- 1022) \<le> \<bar>x\<bar>" "\<bar>x\<bar> < 2 powi 1023"
  shows "\<exists>y. round64 x = Num y \<and> \<bar>y - x\<bar> \<le> \<bar>x\<bar> / 2 ^ 53"
proof -
  have x: "0 < \<bar>x\<bar>" using assms(1) zero_less_power_int [of "2::real" "- 1022"] by linarith
  let ?k = "ilog2 \<bar>x\<bar>"
  have b: "2 powi ?k \<le> \<bar>x\<bar>" "\<bar>x\<bar> < 2 powi (?k + 1)"
    using ilog2_bounds [OF x] by auto
  have "(2::real) powi (- 1022) < 2 powi (?k + 1)" using assms(1) b(2) by linarith
  then have k1: "- 1022 \<le> ?k" using powi_less_cancel [of "- 1022" "?k + 1"] by simp
  have "(2::real) powi ?k < 2 powi 1023" using assms(2) b(1) by linarith
  then have k2: "?k \<le> 1022" using powi_less_cancel [of ?k 1023] by simp
  let ?q = "(2::real) powi (?k - 52)"
  let ?y = "real_of_int (round_even (x / ?q)) * ?q"
  have r: "round64 x = Num ?y" by (rule round64_normal [OF b k1 k2])
  have q: "0 < ?q" by simp
  have "\<bar>?y - x\<bar> = \<bar>real_of_int (round_even (x / ?q)) - x / ?q\<bar> * ?q"
  proof -
    have "?y - x = (real_of_int (round_even (x / ?q)) - x / ?q) * ?q"
      using q by (simp add: field_simps)
    then show ?thesis using q by (simp add: abs_mult)
  qed
  also have "\<dots> \<le> (1 / 2) * ?q"
    using round_even_near [of "x / ?q"] q by (intro mult_right_mono) simp_all
  also have "\<dots> = 2 powi ?k / 2 ^ 53"
  proof -
    have "(2::real) powi (?k - 52) = 2 powi ?k / 2 powi 52"
      by (simp add: power_int_diff)
    then show ?thesis by simp
  qed
  also have "\<dots> \<le> \<bar>x\<bar> / 2 ^ 53" using b(1) by (simp add: divide_right_mono)
  finally show ?thesis using r by blast
qed

text \<open>A multiple of \<open>2 powi j\<close> with a significand below \<open>2 ^ 53\<close> is not rounded.\<close>

lemma round64_exact:
  assumes "x = real_of_int m * 2 powi j" "\<bar>m\<bar> < 2 ^ 53" "- 1022 \<le> j" "j \<le> 960"
  shows "round64 x = Num x"
proof (cases "x = 0")
  case True
  then show ?thesis by (simp add: round64_def)
next
  case False
  have x: "0 < \<bar>x\<bar>" using False by simp
  let ?k = "ilog2 \<bar>x\<bar>"
  have b: "2 powi ?k \<le> \<bar>x\<bar>" "\<bar>x\<bar> < 2 powi (?k + 1)"
    using ilog2_bounds [OF x] by auto
  have m0: "m \<noteq> 0" using False assms(1) by auto
  have ax: "\<bar>x\<bar> = real_of_int \<bar>m\<bar> * 2 powi j"
    by (simp add: assms(1) abs_mult)
  have "1 \<le> \<bar>m\<bar>" using m0 by simp
  then have "1 \<le> real_of_int \<bar>m\<bar>" using of_int_le_iff [of 1 "\<bar>m\<bar>"] by simp
  then have lo: "2 powi j \<le> \<bar>x\<bar>"
    unfolding ax using mult_right_mono [of 1 "real_of_int \<bar>m\<bar>" "2 powi j"] by simp
  have "real_of_int \<bar>m\<bar> < 2 ^ 53"
    using assms(2) of_int_less_iff [of "\<bar>m\<bar>" "2 ^ 53"] by simp
  then have "\<bar>x\<bar> < 2 ^ 53 * 2 powi j"
    unfolding ax by (intro mult_strict_right_mono) simp_all
  also have "\<dots> = 2 powi (53 + j)" by (simp add: power_int_add)
  finally have hi: "\<bar>x\<bar> < 2 powi (53 + j)" .
  have "(2::real) powi j < 2 powi (?k + 1)" using lo b(2) by linarith
  then have k1: "j \<le> ?k" using powi_less_cancel [of j "?k + 1"] by simp
  have "(2::real) powi ?k < 2 powi (53 + j)" using hi b(1) by linarith
  then have k2: "?k \<le> 52 + j" using powi_less_cancel [of ?k "53 + j"] by simp
  have r: "round64 x
      = Num (of_int (round_even (x / 2 powi (?k - 52))) * 2 powi (?k - 52))"
    using k1 k2 assms(3,4) by (intro round64_normal [OF b]) simp_all
  let ?d = "j - (?k - 52)"
  have d: "0 \<le> ?d" using k2 by simp
  have "x / 2 powi (?k - 52) = real_of_int m * 2 powi ?d"
    by (simp add: assms(1) power_int_diff)
  also have "\<dots> = real_of_int (m * 2 ^ nat ?d)"
    using d by (simp add: powi_nonneg)
  finally have z: "x / 2 powi (?k - 52) = real_of_int (m * 2 ^ nat ?d)" .
  have "real_of_int (round_even (x / 2 powi (?k - 52))) * 2 powi (?k - 52)
      = (x / 2 powi (?k - 52)) * 2 powi (?k - 52)"
    unfolding z round_even_of_int ..
  also have "\<dots> = x" by simp
  finally show ?thesis using r by simp
qed


lemmas eval64 =
  round64_def ilog2_def compute_bitlen round_even_def Let_def minus_number_def

lemma gridReal_add [simp]: "gridReal x \<Longrightarrow> gridReal y \<Longrightarrow> gridReal (x + y)"
proof -
  assume "gridReal x" "gridReal y"
  then have "(x + y) * 64 = of_int (\<lfloor>x * 64\<rfloor> + \<lfloor>y * 64\<rfloor>)"
    by (simp add: gridReal_def algebra_simps)
  then have "(x + y) * 64 \<in> \<int>" by (metis Ints_of_int)
  then show "gridReal (x + y)" unfolding gridReal_def by (simp add: of_int_floor_cancel [symmetric] eq_commute)
qed

lemma gridReal_minus [simp]: "gridReal x \<Longrightarrow> gridReal (- x)"
proof -
  assume "gridReal x"
  then have "(- x) * 64 = of_int (- \<lfloor>x * 64\<rfloor>)" by (simp add: gridReal_def)
  then have "(- x) * 64 \<in> \<int>" by (metis Ints_of_int)
  then show "gridReal (- x)" unfolding gridReal_def by (simp add: of_int_floor_cancel [symmetric] eq_commute)
qed

lemma gridReal_diff [simp]: "gridReal x \<Longrightarrow> gridReal y \<Longrightarrow> gridReal (x - y)"
  using gridReal_add [of x "- y"] by simp

lemma round64_grid:
  assumes "gridReal x" "- (2 ^ 46) \<le> x" "x \<le> 2 ^ 46"
  shows "round64 x = Num x"
proof -
  let ?m = "\<lfloor>x * 64\<rfloor>"
  have x: "x = real_of_int ?m * 2 powi (- 6)"
    using assms(1) by (simp add: gridReal_def power_int_minus)
  have "\<bar>x * 64\<bar> \<le> 2 ^ 52" using assms(2,3) by (simp add: abs_le_iff)
  then have "\<bar>real_of_int ?m\<bar> \<le> 2 ^ 52" using assms(1) by (simp add: gridReal_def)
  then have "\<bar>?m\<bar> \<le> 2 ^ 52"
    by (metis of_int_abs of_int_le_iff of_int_numeral of_int_power)
  then have m: "\<bar>?m\<bar> < 2 ^ 53" by simp
  show ?thesis by (rule round64_exact [OF x m]) simp_all
qed

lemma Num_add_grid:
  "gridReal x \<Longrightarrow> gridReal y \<Longrightarrow> - (2 ^ 46) \<le> x + y \<Longrightarrow> x + y \<le> 2 ^ 46 \<Longrightarrow> Num x + Num y = Num (x + y)"
  by (simp add: round64_grid)

lemma Num_sub_grid:
  "gridReal x \<Longrightarrow> gridReal y \<Longrightarrow> - (2 ^ 46) \<le> x - y \<Longrightarrow> x - y \<le> 2 ^ 46 \<Longrightarrow> Num x - Num y = Num (x - y)"
  using round64_grid [of "x + - y"] by (simp add: minus_number_def)

lemma onGridE:
  assumes "onGrid a"
  obtains x where "a = Num x" "gridReal x" "- (2 ^ 32) \<le> x" "x \<le> 2 ^ 32"
  using assms by (cases a) (auto simp: onGrid_def gridReal_def)


lemma number_less_irrefl: "\<not> (a::number) < a"
  by (cases a) simp_all

section \<open>Properties of the edit history\<close>

lemma slice_prefix:
  assumes "0 \<le> n" "n \<le> int (length xs)"
  shows "slice xs 0 n = take (nat n) xs"
proof -
  have "nat n \<le> length xs" using assms by linarith
  then show ?thesis using assms by (simp add: slice_def slice_rel_def Let_def)
qed

lemma history_inv_initialState: "history_inv initialState"
  by (simp add: history_inv_def initialState_def)

lemma addImageToHistory_history:
  assumes "-1 \<le> i" "i < int (length h)"
  shows "history (addImageToHistory h i s st) = take (nat (i + 1)) h @ [s]"
  using assms by (simp add: addImageToHistory_def Let_def slice_prefix)

lemma addImageToHistory_index:
  assumes "-1 \<le> i" "i < int (length h)"
  shows "historyIndex (addImageToHistory h i s st) = i + 1"
proof -
  have "nat (i + 1) \<le> length h" using assms by linarith
  then show ?thesis using assms
    by (simp add: addImageToHistory_def Let_def slice_prefix)
qed

lemma addImageToHistory_clears:
  "crop (addImageToHistory h i s st) = None"
  "completedCrop (addImageToHistory h i s st) = None"
  "expandRect (addImageToHistory h i s st) = None"
  by (simp_all add: addImageToHistory_def Let_def)







lemma handleUndo_at_zero: "historyIndex st = 0 \<Longrightarrow> handleUndo st = st"
  by (simp add: handleUndo_def canUndo_def)

lemma handleRedo_at_end:
  "historyIndex st = int (length (history st)) - 1 \<Longrightarrow> handleRedo st = st"
  by (simp add: handleRedo_def canRedo_def)

lemma handleRedo_handleUndo:
  assumes "0 < historyIndex st" "historyIndex st \<le> int (length (history st)) - 1"
  shows "handleRedo (handleUndo st) = st"
  using assms by (simp add: handleRedo_def handleUndo_def canUndo_def canRedo_def)

text \<open>
  Claim C4. Undo at cursor 0 changes nothing; redo at cursor length - 1 changes nothing;
  at every cursor c with 0 < c \<le> length - 1, undo followed by redo comes back to the
  cursor c, with the same snapshot at the cursor (and the same sequence).
\<close>

theorem undo_redo_boundary:
  "(historyIndex st = 0 \<longrightarrow> handleUndo st = st)
   \<and> (historyIndex st = int (length (history st)) - 1 \<longrightarrow> handleRedo st = st)
   \<and> (0 < historyIndex st \<and> historyIndex st \<le> int (length (history st)) - 1 \<longrightarrow>
        historyIndex (handleRedo (handleUndo st)) = historyIndex st
        \<and> currentImage (handleRedo (handleUndo st)) = currentImage st
        \<and> history (handleRedo (handleUndo st)) = history st)"
  using handleUndo_at_zero [of st] handleRedo_at_end [of st] handleRedo_handleUndo [of st]
  by simp

theorem undo_redo_boundary_witness:
  "handleUndo (initialState\<lparr>history := [File ''a'' ''a.png'' ''image/png''],
                            historyIndex := 0\<rparr>)
     = initialState\<lparr>history := [File ''a'' ''a.png'' ''image/png''], historyIndex := 0\<rparr>
   \<and> handleRedo (initialState\<lparr>history := [File ''a'' ''a.png'' ''image/png''],
                              historyIndex := 0\<rparr>)
     = initialState\<lparr>history := [File ''a'' ''a.png'' ''image/png''], historyIndex := 0\<rparr>
   \<and> historyIndex (handleRedo (handleUndo
        (initialState\<lparr>history := [File ''a'' ''a.png'' ''image/png'',
                                    File ''b'' ''b.png'' ''image/png''],
                       historyIndex := 1\<rparr>))) = 1
   \<and> currentImage (handleRedo (handleUndo
        (initialState\<lparr>history := [File ''a'' ''a.png'' ''image/png'',
                                    File ''b'' ''b.png'' ''image/png''],
                       historyIndex := 1\<rparr>))) = Some (File ''b'' ''b.png'' ''image/png'')"
  using undo_redo_boundary [of
      "initialState\<lparr>history := [File ''a'' ''a.png'' ''image/png''], historyIndex := 0\<rparr>"]
    undo_redo_boundary [of
      "initialState\<lparr>history := [File ''a'' ''a.png'' ''image/png'',
                                  File ''b'' ''b.png'' ''image/png''],
                     historyIndex := 1\<rparr>"]
  by (simp add: currentImage_def at_or_null_def)

lemma history_inv_addImageToHistory:
  assumes "-1 \<le> i" "i < int (length h)"
  shows "history_inv (addImageToHistory h i s st)"
proof -
  have n: "nat (i + 1) \<le> length h" using assms by linarith
  have hh: "history (addImageToHistory h i s st) = take (nat (i + 1)) h @ [s]"
    by (rule addImageToHistory_history [OF assms])
  have ii: "historyIndex (addImageToHistory h i s st) = i + 1"
    by (rule addImageToHistory_index [OF assms])
  show ?thesis
    unfolding history_inv_def hh ii using n assms by simp
qed

lemma history_inv_bounds:
  "history_inv st \<Longrightarrow> -1 \<le> historyIndex st \<and> historyIndex st < int (length (history st))"
  by (cases "history st") (auto simp: history_inv_def)

lemma history_inv_appendImage: "history_inv st \<Longrightarrow> history_inv (appendImage s st)"
  unfolding appendImage_def
  using history_inv_bounds [of st] by (simp add: history_inv_addImageToHistory)

lemma history_inv_handleImageUpload: "history_inv (handleImageUpload file st)"
  by (simp add: history_inv_def handleImageUpload_def)

lemma history_inv_handleGeneratedImage: "history_inv (handleGeneratedImage file st)"
  by (simp add: history_inv_def handleGeneratedImage_def handleImageUpload_def)

lemma history_inv_handleUndo: "history_inv st \<Longrightarrow> history_inv (handleUndo st)"
  by (auto simp: history_inv_def handleUndo_def canUndo_def)

lemma history_inv_handleRedo: "history_inv st \<Longrightarrow> history_inv (handleRedo st)"
  by (auto simp: history_inv_def handleRedo_def canRedo_def)

lemma history_inv_handleReset: "history_inv st \<Longrightarrow> history_inv (handleReset st)"
  by (auto simp: history_inv_def handleReset_def)

lemma history_inv_handleUploadNew: "history_inv (handleUploadNew st)"
  by (simp add: history_inv_def handleUploadNew_def)

lemma history_inv_addImageToHistory_any: "history_inv (addImageToHistory h i s st)"
  by (simp add: history_inv_def addImageToHistory_def Let_def)

text \<open>
  Claim C5. Every history operation keeps the invariant "0 \<le> index < length whenever
  length > 0, and index = -1 exactly when length = 0": the initial upload and the
  generated starting image (replace-all), append (on the current history, and with
  whatever history and cursor the callback holds), undo, redo, reset and upload-new.
\<close>

theorem history_operations_preserve_inv:
  assumes "history_inv st"
  shows "history_inv (handleImageUpload file st)
    \<and> history_inv (handleGeneratedImage file st)
    \<and> history_inv (appendImage file st)
    \<and> history_inv (addImageToHistory h i file st)
    \<and> history_inv (handleUndo st)
    \<and> history_inv (handleRedo st)
    \<and> history_inv (handleReset st)
    \<and> history_inv (handleUploadNew st)"
  using assms
  by (simp add: history_inv_handleImageUpload history_inv_handleGeneratedImage
      history_inv_appendImage history_inv_handleUndo history_inv_handleRedo
      history_inv_handleReset history_inv_handleUploadNew
      history_inv_addImageToHistory_any)

lemma history_inv_exampleTwo: "history_inv exampleTwo"
  by (simp add: history_inv_def exampleTwo_def initialState_def)

theorem history_operations_preserve_inv_witness:
  "history_inv exampleTwo
   \<and> historyIndex (handleUndo exampleTwo) = 0 \<and> history_inv (handleUndo exampleTwo)
   \<and> historyIndex (handleRedo (handleUndo exampleTwo)) = 1
   \<and> history_inv (handleRedo (handleUndo exampleTwo))
   \<and> historyIndex (handleReset exampleTwo) = 0 \<and> history_inv (handleReset exampleTwo)
   \<and> history (appendImage imageA (handleUndo exampleTwo)) = [imageA, imageA]
   \<and> history_inv (appendImage imageA (handleUndo exampleTwo))
   \<and> history_inv (addImageToHistory [imageA, imageB] 1 imageA (handleUndo exampleTwo))
   \<and> history_inv (handleImageUpload imageB exampleTwo)
   \<and> history_inv (handleGeneratedImage imageB exampleTwo)
   \<and> history (handleUploadNew exampleTwo) = [] \<and> history_inv (handleUploadNew exampleTwo)"
proof -
  have u: "history_inv (handleUndo exampleTwo)"
    using history_operations_preserve_inv [OF history_inv_exampleTwo] by blast
  show ?thesis
    using history_operations_preserve_inv [OF history_inv_exampleTwo, of imageB]
      history_operations_preserve_inv [OF u, of imageA "[imageA, imageB]" 1]
      history_inv_exampleTwo
    by (simp add: handleUndo_def handleRedo_def handleReset_def handleUploadNew_def
        canUndo_def canRedo_def appendImage_def addImageToHistory_def slice_def
        slice_rel_def Let_def exampleTwo_def initialState_def)
qed

text \<open>
  Claim C9. Reset on an empty history changes nothing at all; reset with the cursor
  already at 0 leaves sequence and cursor as they are; reset from any cursor of a
  non-empty history puts the cursor at 0 and keeps the sequence; so resetting twice is
  the same as resetting once.
\<close>

theorem reset_idempotent:
  "(history st = [] \<longrightarrow> handleReset st = st)
   \<and> (historyIndex st = 0 \<longrightarrow>
        history (handleReset st) = history st \<and> historyIndex (handleReset st) = 0)
   \<and> (history st \<noteq> [] \<longrightarrow>
        historyIndex (handleReset st) = 0 \<and> history (handleReset st) = history st)
   \<and> handleReset (handleReset st) = handleReset st"
  by (simp add: handleReset_def)

theorem reset_idempotent_witness:
  "handleReset initialState = initialState
   \<and> historyIndex (handleReset
        (initialState\<lparr>history := [File ''a'' ''a.png'' ''image/png'',
                                    File ''b'' ''b.png'' ''image/png''],
                       historyIndex := 1\<rparr>)) = 0
   \<and> history (handleReset
        (initialState\<lparr>history := [File ''a'' ''a.png'' ''image/png'',
                                    File ''b'' ''b.png'' ''image/png''],
                       historyIndex := 1\<rparr>))
      = [File ''a'' ''a.png'' ''image/png'', File ''b'' ''b.png'' ''image/png'']"
  using reset_idempotent [of initialState]
    reset_idempotent [of
      "initialState\<lparr>history := [File ''a'' ''a.png'' ''image/png'',
                                  File ''b'' ''b.png'' ''image/png''],
                     historyIndex := 1\<rparr>"]
  by (simp add: initialState_def)

text \<open>
  Claim C10. Undo and redo change the cursor and nothing else: the snapshot sequence,
  the pending crop selection and the expand rectangle stay as they were. Append, in
  contrast, clears the crop selection and the expand rectangle.
\<close>

theorem undo_redo_frame:
  "(\<exists>i. handleUndo st = st\<lparr>historyIndex := i\<rparr>)
   \<and> (\<exists>i. handleRedo st = st\<lparr>historyIndex := i\<rparr>)
   \<and> history (handleUndo st) = history st \<and> history (handleRedo st) = history st
   \<and> crop (handleUndo st) = crop st \<and> crop (handleRedo st) = crop st
   \<and> completedCrop (handleUndo st) = completedCrop st
   \<and> completedCrop (handleRedo st) = completedCrop st
   \<and> expandRect (handleUndo st) = expandRect st
   \<and> expandRect (handleRedo st) = expandRect st
   \<and> crop (appendImage s st) = None \<and> completedCrop (appendImage s st) = None
   \<and> expandRect (appendImage s st) = None"
proof -
  have u: "handleUndo st = st\<lparr>historyIndex := historyIndex (handleUndo st)\<rparr>"
    by (simp add: handleUndo_def)
  have r: "handleRedo st = st\<lparr>historyIndex := historyIndex (handleRedo st)\<rparr>"
    by (simp add: handleRedo_def)
  have a: "crop (appendImage s st) = None \<and> completedCrop (appendImage s st) = None
      \<and> expandRect (appendImage s st) = None"
    by (simp add: appendImage_def addImageToHistory_clears)
  have f: "history (handleUndo st) = history st \<and> history (handleRedo st) = history st
      \<and> crop (handleUndo st) = crop st \<and> crop (handleRedo st) = crop st
      \<and> completedCrop (handleUndo st) = completedCrop st
      \<and> completedCrop (handleRedo st) = completedCrop st
      \<and> expandRect (handleUndo st) = expandRect st
      \<and> expandRect (handleRedo st) = expandRect st"
    by (simp add: handleUndo_def handleRedo_def)
  from u r a f show ?thesis by blast
qed

section \<open>Properties of the expand frame\<close>

lemma handleMouseMove_dragState:
  "dragState (handleMouseMove imgRef imageContainerRef x y st) = dragState st"
  by (simp add: handleMouseMove_def Let_def)

lemma handleMouseMove_grid:
  assumes d: "dragState st = Some d"
    and r: "gridRect (initialRect d)"
    and m: "onGrid (initialMouseX d)" "onGrid (initialMouseY d)"
    and i: "gridDOMRect imgRect" and c: "gridDOMRect containerRect"
    and p: "onGrid X" "onGrid Y"
  shows "\<exists>r'. expandRect (handleMouseMove (Some imgRect) (Some containerRect) X Y st) = Some r'
           \<and> containsImage r' imgRect containerRect"
proof -
  obtain t where t: "rect_top (initialRect d) = Num t" "gridReal t" "- (2 ^ 32) \<le> t" "t \<le> 2 ^ 32"
    using r by (auto simp: gridRect_def elim: onGridE)
  obtain l where l: "rect_left (initialRect d) = Num l" "gridReal l" "- (2 ^ 32) \<le> l" "l \<le> 2 ^ 32"
    using r by (auto simp: gridRect_def elim: onGridE)
  obtain w where w: "rect_width (initialRect d) = Num w" "gridReal w" "- (2 ^ 32) \<le> w" "w \<le> 2 ^ 32"
    using r by (auto simp: gridRect_def elim: onGridE)
  obtain h where h: "rect_height (initialRect d) = Num h" "gridReal h" "- (2 ^ 32) \<le> h" "h \<le> 2 ^ 32"
    using r by (auto simp: gridRect_def elim: onGridE)
  obtain mx where mx: "initialMouseX d = Num mx" "gridReal mx" "- (2 ^ 32) \<le> mx" "mx \<le> 2 ^ 32"
    using m(1) by (auto elim: onGridE)
  obtain my where my: "initialMouseY d = Num my" "gridReal my" "- (2 ^ 32) \<le> my" "my \<le> 2 ^ 32"
    using m(2) by (auto elim: onGridE)
  obtain x where x: "X = Num x" "gridReal x" "- (2 ^ 32) \<le> x" "x \<le> 2 ^ 32"
    using p(1) by (auto elim: onGridE)
  obtain y where y: "Y = Num y" "gridReal y" "- (2 ^ 32) \<le> y" "y \<le> 2 ^ 32"
    using p(2) by (auto elim: onGridE)
  obtain it where it: "dom_top imgRect = Num it" "gridReal it" "- (2 ^ 32) \<le> it" "it \<le> 2 ^ 32"
    using i by (auto simp: gridDOMRect_def elim: onGridE)
  obtain il where il: "dom_left imgRect = Num il" "gridReal il" "- (2 ^ 32) \<le> il" "il \<le> 2 ^ 32"
    using i by (auto simp: gridDOMRect_def elim: onGridE)
  obtain iw where iw: "dom_width imgRect = Num iw" "gridReal iw" "- (2 ^ 32) \<le> iw" "iw \<le> 2 ^ 32"
    using i by (auto simp: gridDOMRect_def elim: onGridE)
  obtain ih where ih: "dom_height imgRect = Num ih" "gridReal ih" "- (2 ^ 32) \<le> ih" "ih \<le> 2 ^ 32"
    using i by (auto simp: gridDOMRect_def elim: onGridE)
  obtain ct where ct: "dom_top containerRect = Num ct" "gridReal ct" "- (2 ^ 32) \<le> ct" "ct \<le> 2 ^ 32"
    using c by (auto simp: gridDOMRect_def elim: onGridE)
  obtain cl where cl: "dom_left containerRect = Num cl" "gridReal cl" "- (2 ^ 32) \<le> cl" "cl \<le> 2 ^ 32"
    using c by (auto simp: gridDOMRect_def elim: onGridE)
  note facts = t l w h mx my x y it il iw ih ct cl
  show ?thesis
    unfolding handleMouseMove_def containsImage_def
    using d facts
    by (simp add: Let_def Num_add_grid Num_sub_grid del: plus_number.simps)
qed


lemma handleMouseMove_top_left:
  assumes "dragState st = Some d"
  shows "\<exists>r'. expandRect (handleMouseMove (Some imgRect) (Some containerRect) X Y st) = Some r'
           \<and> \<not> dom_top imgRect - dom_top containerRect < rect_top r'
           \<and> \<not> dom_left imgRect - dom_left containerRect < rect_left r'"
  using assms by (simp add: handleMouseMove_def Let_def number_less_irrefl)

lemma pointerMoves_top_left:
  assumes "dragState st = Some d" "ps \<noteq> []"
  shows "\<exists>r'. expandRect (pointerMoves (Some imgRect) (Some containerRect) ps st) = Some r'
           \<and> \<not> dom_top imgRect - dom_top containerRect < rect_top r'
           \<and> \<not> dom_left imgRect - dom_left containerRect < rect_left r'"
  using assms
proof (induction ps arbitrary: st)
  case Nil
  then show ?case by simp
next
  case (Cons p ps)
  let ?st = "handleMouseMove (Some imgRect) (Some containerRect) (fst p) (snd p) st"
  show ?case
  proof (cases "ps = []")
    case True
    then show ?thesis
      using handleMouseMove_top_left [OF Cons.prems(1), of imgRect containerRect "fst p" "snd p"]
      by simp
  next
    case False
    have d: "dragState ?st = Some d"
      using Cons.prems(1) by (simp add: handleMouseMove_dragState)
    show ?thesis using Cons.IH [OF d False] by simp
  qed
qed

lemma pointerMoves_grid:
  assumes "dragState st = Some d" "gridRect (initialRect d)"
    "onGrid (initialMouseX d)" "onGrid (initialMouseY d)"
    "gridDOMRect imgRect" "gridDOMRect containerRect"
    "list_all (\<lambda>p. onGrid (fst p) \<and> onGrid (snd p)) ps"
    "expandRect st = Some r" "containsImage r imgRect containerRect"
  shows "\<exists>r'. expandRect (pointerMoves (Some imgRect) (Some containerRect) ps st) = Some r'
           \<and> containsImage r' imgRect containerRect"
  using assms(1,7,8,9)
proof (induction ps arbitrary: st r)
  case Nil
  then show ?case by simp
next
  case (Cons p ps)
  let ?st = "handleMouseMove (Some imgRect) (Some containerRect) (fst p) (snd p) st"
  have d: "dragState ?st = Some d"
    using Cons.prems(1) by (simp add: handleMouseMove_dragState)
  have g: "onGrid (fst p)" "onGrid (snd p)" using Cons.prems(2) by simp_all
  have rest: "list_all (\<lambda>p. onGrid (fst p) \<and> onGrid (snd p)) ps" using Cons.prems(2) by simp
  obtain r1 where r1: "expandRect ?st = Some r1" "containsImage r1 imgRect containerRect"
    using handleMouseMove_grid [OF Cons.prems(1) assms(2,3,4,5,6) g] by blast
  show ?case using Cons.IH [OF d rest r1] by simp
qed

text \<open>
  Claim C3. During an expand drag (pointer-down on a handle with any name, among them
  n, s, e, w, ne, nw, se, sw), after every pointer-move the top of the expand rectangle
  is not greater than imgTop and its left is not greater than imgLeft. If moreover the
  coordinates involved (the bounding rectangles of the image and of the container, the
  rectangle at the start of the drag, the pointer positions) are multiples of 1/64
  pixel of magnitude at most 2^32, so that the sums and differences of the handler are
  exact in binary64, and the rectangle at the start of the drag contains the displayed
  image, then after every pointer-move top \<le> imgTop, left \<le> imgLeft,
  left + width \<ge> imgLeft + imgWidth and top + height \<ge> imgTop + imgHeight.
\<close>

theorem expand_containment:
  assumes "expandRect st = Some r"
  shows "(ps \<noteq> [] \<longrightarrow>
      (\<exists>r'. expandRect (pointerMoves (Some imgRect) (Some containerRect) ps
                (handleExpandMouseDown x0 y0 h st)) = Some r'
         \<and> \<not> dom_top imgRect - dom_top containerRect < rect_top r'
         \<and> \<not> dom_left imgRect - dom_left containerRect < rect_left r'))
    \<and> (gridRect r \<and> onGrid x0 \<and> onGrid y0 \<and> gridDOMRect imgRect \<and> gridDOMRect containerRect
        \<and> list_all (\<lambda>p. onGrid (fst p) \<and> onGrid (snd p)) ps
        \<and> containsImage r imgRect containerRect \<longrightarrow>
      (\<exists>r'. expandRect (pointerMoves (Some imgRect) (Some containerRect) ps
                (handleExpandMouseDown x0 y0 h st)) = Some r'
         \<and> containsImage r' imgRect containerRect))"
proof -
  let ?st = "handleExpandMouseDown x0 y0 h st"
  let ?d = "\<lparr>handle = h, initialRect = r, initialMouseX = x0, initialMouseY = y0\<rparr>"
  have d: "dragState ?st = Some ?d"
    using assms by (simp add: handleExpandMouseDown_def)
  have e: "expandRect ?st = Some r"
    using assms by (simp add: handleExpandMouseDown_def)
  have a: "ps \<noteq> [] \<Longrightarrow>
      (\<exists>r'. expandRect (pointerMoves (Some imgRect) (Some containerRect) ps ?st) = Some r'
         \<and> \<not> dom_top imgRect - dom_top containerRect < rect_top r'
         \<and> \<not> dom_left imgRect - dom_left containerRect < rect_left r')"
    by (rule pointerMoves_top_left [OF d])
  have b: "gridRect r \<and> onGrid x0 \<and> onGrid y0 \<and> gridDOMRect imgRect \<and> gridDOMRect containerRect
        \<and> list_all (\<lambda>p. onGrid (fst p) \<and> onGrid (snd p)) ps
        \<and> containsImage r imgRect containerRect \<Longrightarrow>
      (\<exists>r'. expandRect (pointerMoves (Some imgRect) (Some containerRect) ps ?st) = Some r'
         \<and> containsImage r' imgRect containerRect)"
    using pointerMoves_grid [OF d _ _ _ _ _ _ e, of imgRect containerRect ps] by simp
  show ?thesis using a b by blast
qed

lemma exampleLoaded_eq:
  "exampleLoaded = initialState
     \<lparr>history := [imageA], historyIndex := 0,
      imageDimensions := Some \<lparr>dim_width = Num 1000, dim_height = Num 800\<rparr>\<rparr>"
  by (simp add: exampleLoaded_def handleImageLoad_def handleImageUpload_def initialState_def)

lemma exampleExpandState_eq:
  "exampleExpandState = exampleLoaded
     \<lparr>activeTab := Tab_expand,
      expandRect := Some \<lparr>rect_top = Num 0, rect_left = Num 20, rect_width = Num 500,
                          rect_height = Num 400\<rparr>\<rparr>"
  by (simp add: exampleExpandState_def expandTabEffect_def selectTab_def exampleLoaded_eq
      initialState_def exampleImgRect_def exampleContainerRect_def eval64)

lemma exampleExpandState_rect:
  "expandRect exampleExpandState
    = Some \<lparr>rect_top = Num 0, rect_left = Num 20, rect_width = Num 500,
            rect_height = Num 400\<rparr>"
  by (simp add: exampleExpandState_eq)

theorem expand_containment_witness:
  "expandRect exampleExpandState
      = Some \<lparr>rect_top = Num 0, rect_left = Num 20, rect_width = Num 500,
              rect_height = Num 400\<rparr>
   \<and> gridRect \<lparr>rect_top = Num 0, rect_left = Num 20, rect_width = Num 500,
               rect_height = Num 400\<rparr>
   \<and> gridDOMRect exampleImgRect \<and> gridDOMRect exampleContainerRect
   \<and> containsImage \<lparr>rect_top = Num 0, rect_left = Num 20, rect_width = Num 500,
                    rect_height = Num 400\<rparr> exampleImgRect exampleContainerRect
   \<and> (\<exists>r'. expandRect
          (pointerMoves (Some exampleImgRect) (Some exampleContainerRect)
             [(Num 400, Num 300), (Num 380, Num 290)]
             (handleExpandMouseDown (Num 520) (Num 410) ''se'' exampleExpandState)) = Some r'
        \<and> \<not> dom_top exampleImgRect - dom_top exampleContainerRect < rect_top r'
        \<and> \<not> dom_left exampleImgRect - dom_left exampleContainerRect < rect_left r'
        \<and> containsImage r' exampleImgRect exampleContainerRect)"
proof -
  have g: "gridRect \<lparr>rect_top = Num 0, rect_left = Num 20, rect_width = Num 500,
      rect_height = Num 400\<rparr>"
    by (simp add: gridRect_def onGrid_def)
  have gi: "gridDOMRect exampleImgRect" "gridDOMRect exampleContainerRect"
    by (simp_all add: gridDOMRect_def onGrid_def exampleImgRect_def exampleContainerRect_def)
  have c: "containsImage \<lparr>rect_top = Num 0, rect_left = Num 20, rect_width = Num 500,
      rect_height = Num 400\<rparr> exampleImgRect exampleContainerRect"
    by (simp add: containsImage_def exampleImgRect_def exampleContainerRect_def eval64)
  have p: "onGrid (Num 520)" "onGrid (Num 410)"
    "list_all (\<lambda>p. onGrid (fst p) \<and> onGrid (snd p)) [(Num 400, Num 300), (Num 380, Num 290)]"
    by (simp_all add: onGrid_def)
  show ?thesis
    using expand_containment [OF exampleExpandState_rect,
        of "[(Num 400, Num 300), (Num 380, Num 290)]" exampleImgRect exampleContainerRect
           "Num 520" "Num 410" "''se''"]
      exampleExpandState_rect g gi c p
    by auto
qed

text \<open>
  Off that grid the rounding of width = right - left can leave left + width below the
  right edge of the image. The image is 500.3 pixels wide, 8.5 pixels from the left
  edge of the container, and the rectangle is the one the expand tab opens with; the
  west handle is dragged 12 pixels to the left. The handler stores left = -3.5 and
  width = 512.29999999999995, whose sum in binary64 is 508.79999999999995, less than
  imgLeft + imgWidth = 508.8.
\<close>

lemma exampleOffGridState_rect:
  "expandRect exampleOffGridState
    = Some \<lparr>rect_top = Num 0, rect_left = Num (17 / 2),
            rect_width = Num (8801370678021325 / 2 ^ 44), rect_height = Num 400\<rparr>"
  by (simp add: exampleOffGridState_def expandTabEffect_def selectTab_def exampleLoaded_eq
      initialState_def exampleOffGridRect_def exampleOffGridContainer_def eval64)

lemma exampleOffGrid_down:
  "handleExpandMouseDown (Num 8) (Num 200) ''w'' exampleOffGridState
    = exampleOffGridState\<lparr>dragState := Some
        \<lparr>handle = ''w'',
         initialRect = \<lparr>rect_top = Num 0, rect_left = Num (17 / 2),
                        rect_width = Num (8801370678021325 / 2 ^ 44),
                        rect_height = Num 400\<rparr>,
         initialMouseX = Num 8, initialMouseY = Num 200\<rparr>\<rparr>"
  by (simp add: exampleOffGridState_rect handleExpandMouseDown_def)

lemma exampleOffGrid_moved:
  "expandRect (pointerMoves (Some exampleOffGridRect) (Some exampleOffGridContainer)
       [(Num (- 4), Num 200)]
       (handleExpandMouseDown (Num 8) (Num 200) ''w'' exampleOffGridState))
    = Some \<lparr>rect_top = Num 0, rect_left = Num (- 7 / 2),
            rect_width = Num (2253119227638579 / 2 ^ 42), rect_height = Num 400\<rparr>"
  unfolding exampleOffGrid_down
  by (simp add: handleMouseMove_def str_includes_def exampleOffGridRect_def
      exampleOffGridContainer_def eval64)

theorem expand_containment_fails:
  "expandRect exampleOffGridState
      = Some \<lparr>rect_top = Num 0, rect_left = Num (17 / 2),
              rect_width = Num (8801370678021325 / 2 ^ 44), rect_height = Num 400\<rparr>
   \<and> containsImage \<lparr>rect_top = Num 0, rect_left = Num (17 / 2),
                    rect_width = Num (8801370678021325 / 2 ^ 44), rect_height = Num 400\<rparr>
        exampleOffGridRect exampleOffGridContainer
   \<and> expandRect (pointerMoves (Some exampleOffGridRect) (Some exampleOffGridContainer)
        [(Num (- 4), Num 200)]
        (handleExpandMouseDown (Num 8) (Num 200) ''w'' exampleOffGridState))
      = Some \<lparr>rect_top = Num 0, rect_left = Num (- 7 / 2),
              rect_width = Num (2253119227638579 / 2 ^ 42), rect_height = Num 400\<rparr>
   \<and> Num (- 7 / 2) + Num (2253119227638579 / 2 ^ 42) = Num (2237726064849715 / 2 ^ 42)
   \<and> dom_left exampleOffGridRect - dom_left exampleOffGridContainer
        + dom_width exampleOffGridRect = Num (8950904259398861 / 2 ^ 44)
   \<and> \<not> containsImage \<lparr>rect_top = Num 0, rect_left = Num (- 7 / 2),
                      rect_width = Num (2253119227638579 / 2 ^ 42), rect_height = Num 400\<rparr>
        exampleOffGridRect exampleOffGridContainer"
  unfolding exampleOffGrid_moved exampleOffGridState_rect
  by (simp add: containsImage_def exampleOffGridRect_def exampleOffGridContainer_def eval64)













lemma scaled_round_bound:
  assumes w: "1 / 2 ^ 100 \<le> w" "w \<le> 2 ^ 100"
    and n: "1 / 2 ^ 100 \<le> n" "n \<le> 2 ^ 100"
    and d: "1 / 2 ^ 100 \<le> d" "d \<le> 2 ^ 100"
  shows "\<exists>s p. round64 (n / d) = Num s \<and> round64 (w * s) = Num p
    \<and> \<bar>real_of_int \<lfloor>p + 1 / 2\<rfloor> * (d / n) - w\<bar> \<le> d / (2 * n) + w / 2 ^ 51"
proof -
  define q where "q = n / d"
  have pos: "(0::real) < 1 / 2 ^ 100" by simp
  have w0: "0 < w" and n0: "0 < n" and d0: "0 < d"
    using w(1) n(1) d(1) pos by linarith+
  have q0: "0 < q" using n0 d0 by (simp add: q_def)
  have qlo: "1 / 2 ^ 200 \<le> q"
  proof -
    have "(1 / 2 ^ 100) / 2 ^ 100 \<le> n / d"
      using n(1) d(2) d0 by (intro frac_le) simp_all
    then show ?thesis by (simp add: q_def)
  qed
  have qhi: "q \<le> 2 ^ 200"
  proof -
    have "n / d \<le> 2 ^ 100 / (1 / 2 ^ 100)"
      using n(2) d(1) n0 by (intro frac_le) simp_all
    then show ?thesis by (simp add: q_def)
  qed
  have c1: "(2::real) powi (- 1022) \<le> 1 / 2 ^ 301"
    by (simp add: power_int_minus divide_simps)
  have c2: "(2::real) ^ 301 < 2 powi 1023" by simp
  have c3: "(1::real) / 2 ^ 301 \<le> 1 / 2 ^ 200" by (simp add: divide_simps)
  have c4: "(2::real) ^ 200 \<le> 2 ^ 301" by simp
  have aq: "\<bar>q\<bar> = q" using q0 by (rule abs_of_pos)
  have "2 powi (- 1022) \<le> \<bar>q\<bar>" "\<bar>q\<bar> < 2 powi 1023"
    unfolding aq using qlo qhi c1 c2 c3 c4 by linarith+
  then obtain s where s: "round64 q = Num s" "\<bar>s - q\<bar> \<le> \<bar>q\<bar> / 2 ^ 53"
    using round64_rel [of q] by blast
  have sq: "\<bar>s - q\<bar> \<le> q / 2 ^ 53" using s(2) unfolding aq .
  have small: "q / 2 ^ 53 \<le> q / 2" using q0 by (simp add: divide_simps)
  have slo: "q / 2 \<le> s" using sq small by linarith
  have shi: "s \<le> 2 * q" using sq small q0 by linarith
  have s0: "0 < s" using slo q0 by linarith
  define x where "x = w * s"
  have x0: "0 < x" using w0 s0 by (simp add: x_def)
  have xlo: "1 / 2 ^ 301 \<le> x"
  proof -
    have e: "(1::real) / 2 ^ 201 = (1 / 2 ^ 200) / 2" by simp
    have "1 / 2 ^ 200 / 2 \<le> q / 2" using qlo by (rule divide_right_mono) simp
    then have "1 / 2 ^ 200 / 2 \<le> s" using slo by (rule order_trans)
    then have "1 / 2 ^ 201 \<le> s" unfolding e .
    then have "(1 / 2 ^ 100) * (1 / 2 ^ 201) \<le> w * s"
      using w(1) by (intro mult_mono) simp_all
    then show ?thesis by (simp add: x_def)
  qed
  have xhi: "x \<le> 2 ^ 301"
  proof -
    have e: "(2::real) ^ 201 = 2 * 2 ^ 200" by simp
    have "2 * q \<le> 2 * 2 ^ 200" using qhi by (rule mult_left_mono) simp
    with shi have "s \<le> 2 * 2 ^ 200" by (rule order_trans)
    then have "s \<le> 2 ^ 201" unfolding e .
    then have "w * s \<le> 2 ^ 100 * 2 ^ 201"
      using w(2) w0 s0 by (intro mult_mono) simp_all
    then show ?thesis by (simp add: x_def)
  qed
  have ax: "\<bar>x\<bar> = x" using x0 by (rule abs_of_pos)
  have "2 powi (- 1022) \<le> \<bar>x\<bar>" "\<bar>x\<bar> < 2 powi 1023"
    unfolding ax using xlo xhi c1 c2 by linarith+
  then obtain p where p: "round64 x = Num p" "\<bar>p - x\<bar> \<le> \<bar>x\<bar> / 2 ^ 53"
    using round64_rel [of x] by blast
  have px: "\<bar>p - x\<bar> \<le> x / 2 ^ 53" using p(2) unfolding ax .
  define t where "t = real_of_int \<lfloor>p + 1 / 2\<rfloor>"
  have tp: "\<bar>t - p\<bar> \<le> 1 / 2" unfolding t_def by linarith
  define y where "y = w * q"
  have y0: "0 < y" using w0 q0 by (simp add: y_def)
  have xy: "\<bar>x - y\<bar> \<le> y / 2 ^ 53"
  proof -
    have "\<bar>x - y\<bar> = w * \<bar>s - q\<bar>"
      using w0 by (simp add: x_def y_def abs_mult right_diff_distrib [symmetric])
    also have "\<dots> \<le> w * (q / 2 ^ 53)"
      using sq w0 by (intro mult_left_mono) simp_all
    finally show ?thesis by (simp add: y_def)
  qed
  have x2y: "x \<le> 2 * y" using shi w0 by (simp add: x_def y_def)
  have x53: "x / 2 ^ 53 \<le> 2 * y / 2 ^ 53" using x2y by (simp add: divide_right_mono)
  have sum: "2 * y / 2 ^ 53 + y / 2 ^ 53 \<le> y / 2 ^ 51" using y0 by (simp add: divide_simps)
  have main: "\<bar>t - y\<bar> \<le> 1 / 2 + y / 2 ^ 51"
    using tp px xy x53 sum by linarith
  define r where "r = d / n"
  have r0: "0 < r" using n0 d0 by (simp add: r_def)
  have yr: "y * r = w" using n0 d0 by (simp add: y_def q_def r_def)
  have "\<bar>t * r - w\<bar> = \<bar>t - y\<bar> * r"
  proof -
    have "t * r - w = (t - y) * r" using yr by (simp add: left_diff_distrib)
    then show ?thesis using r0 by (simp add: abs_mult)
  qed
  also have "\<dots> \<le> (1 / 2 + y / 2 ^ 51) * r"
    using main r0 by (intro mult_right_mono) simp_all
  also have "\<dots> = r / 2 + w / 2 ^ 51"
  proof -
    have "y / 2 ^ 51 * r = w / 2 ^ 51" using yr by (simp add: field_simps)
    then show ?thesis by (simp add: distrib_right)
  qed
  finally have "\<bar>t * r - w\<bar> \<le> r / 2 + w / 2 ^ 51" .
  then have "\<bar>real_of_int \<lfloor>p + 1 / 2\<rfloor> * (d / n) - w\<bar> \<le> d / (2 * n) + w / 2 ^ 51"
    by (simp add: t_def r_def)
  then show ?thesis using s(1) p(1) unfolding q_def x_def by blast
qed


text \<open>
  Claim C7. A displayed rectangle's width and height (between 2^-100 and 2^100, as are
  the natural and the displayed width) are converted to natural pixels by multiplying
  with the scale naturalWidth / displayedWidth in binary64 arithmetic and rounding to
  the nearest integer. Scaled back exactly by the inverse factor, the width w is
  reproduced within displayedWidth / (2 * naturalWidth) + w / 2^51 displayed pixels,
  and the height likewise; hence within 1 pixel whenever the image is displayed no wider
  than its natural width and the side is at most 2^50 pixels.
\<close>

theorem scale_round_trip:
  assumes "rect_width er = Num w" "rect_height er = Num h"
    "dim_width dims = Num n" "dom_width imgRect = Num d"
    and "1 / 2 ^ 100 \<le> w" "w \<le> 2 ^ 100" "1 / 2 ^ 100 \<le> h" "h \<le> 2 ^ 100"
    and "1 / 2 ^ 100 \<le> n" "n \<le> 2 ^ 100" "1 / 2 ^ 100 \<le> d" "d \<le> 2 ^ 100"
  shows "\<exists>tw th. newDimensions (Some dims) (Some er) (Some imgRect)
        = Some (Num (real_of_int tw), Num (real_of_int th))
    \<and> \<bar>real_of_int tw * (d / n) - w\<bar> \<le> d / (2 * n) + w / 2 ^ 51
    \<and> \<bar>real_of_int th * (d / n) - h\<bar> \<le> d / (2 * n) + h / 2 ^ 51
    \<and> (d \<le> n \<and> w \<le> 2 ^ 50 \<longrightarrow> \<bar>real_of_int tw * (d / n) - w\<bar> \<le> 1)
    \<and> (d \<le> n \<and> h \<le> 2 ^ 50 \<longrightarrow> \<bar>real_of_int th * (d / n) - h\<bar> \<le> 1)"
proof -
  have pos: "(0::real) < 1 / 2 ^ 100" by simp
  have n0: "0 < n" and d0: "0 < d" using assms(9,11) pos by linarith+
  obtain s p where sp: "round64 (n / d) = Num s" "round64 (w * s) = Num p"
      "\<bar>real_of_int \<lfloor>p + 1 / 2\<rfloor> * (d / n) - w\<bar> \<le> d / (2 * n) + w / 2 ^ 51"
    using scaled_round_bound [OF assms(5,6) assms(9,10) assms(11,12)] by blast
  obtain s' p' where sp': "round64 (n / d) = Num s'" "round64 (h * s') = Num p'"
      "\<bar>real_of_int \<lfloor>p' + 1 / 2\<rfloor> * (d / n) - h\<bar> \<le> d / (2 * n) + h / 2 ^ 51"
    using scaled_round_bound [OF assms(7,8) assms(9,10) assms(11,12)] by blast
  have ss: "s' = s" using sp(1) sp'(1) by simp
  have nd: "newDimensions (Some dims) (Some er) (Some imgRect)
      = Some (Num (real_of_int \<lfloor>p + 1 / 2\<rfloor>), Num (real_of_int \<lfloor>p' + 1 / 2\<rfloor>))"
    using d0 sp(1,2) sp'(2) ss by (simp add: newDimensions_def Let_def assms(1-4))
  have half: "d \<le> n \<Longrightarrow> d / (2 * n) \<le> 1 / 2" using n0 by (simp add: divide_simps)
  have wq: "w \<le> 2 ^ 50 \<Longrightarrow> w / 2 ^ 51 \<le> 1 / 2" by (simp add: divide_simps)
  have hq: "h \<le> 2 ^ 50 \<Longrightarrow> h / 2 ^ 51 \<le> 1 / 2" by (simp add: divide_simps)
  have w1: "d \<le> n \<and> w \<le> 2 ^ 50 \<longrightarrow> \<bar>real_of_int \<lfloor>p + 1 / 2\<rfloor> * (d / n) - w\<bar> \<le> 1"
    using sp(3) half wq by linarith
  have h1: "d \<le> n \<and> h \<le> 2 ^ 50 \<longrightarrow> \<bar>real_of_int \<lfloor>p' + 1 / 2\<rfloor> * (d / n) - h\<bar> \<le> 1"
    using sp'(3) half hq by linarith
  show ?thesis
    using nd sp(3) sp'(3) w1 h1 by blast
qed

theorem scale_round_trip_witness:
  "\<exists>tw th. newDimensions (Some \<lparr>dim_width = Num 1000, dim_height = Num 800\<rparr>)
        (Some \<lparr>rect_top = Num 0, rect_left = Num 20, rect_width = Num 550,
               rect_height = Num 400\<rparr>)
        (Some exampleImgRect) = Some (Num (real_of_int tw), Num (real_of_int th))
    \<and> \<bar>real_of_int tw * (500 / 1000) - 550\<bar> \<le> 1
    \<and> \<bar>real_of_int th * (500 / 1000) - 400\<bar> \<le> 1"
  using scale_round_trip [of
      "\<lparr>rect_top = Num 0, rect_left = Num 20, rect_width = Num 550, rect_height = Num 400\<rparr>"
      550 400 "\<lparr>dim_width = Num 1000, dim_height = Num 800\<rparr>" 1000 exampleImgRect 500]
  by (simp add: exampleImgRect_def divide_simps) blast

text \<open>
  Without the bound on the displayed width the round trip can be off by more than one
  pixel: a 100 x 80 image displayed at 500 x 400, with a rectangle 502 pixels wide, has
  the target width round(100.4) = 100, which scales back to 500.
\<close>

theorem scale_round_trip_fails:
  "newDimensions (Some \<lparr>dim_width = Num 100, dim_height = Num 80\<rparr>)
      (Some \<lparr>rect_top = Num 0, rect_left = Num 0, rect_width = Num 502,
             rect_height = Num 400\<rparr>)
      (Some \<lparr>dom_top = Num 0, dom_left = Num 0, dom_width = Num 500,
             dom_height = Num 400\<rparr>)
     = Some (Num 100, Num 80)
   \<and> Num 100 * (Num 500 / Num 100) = Num 500
   \<and> \<not> Num 502 - Num 100 * (Num 500 / Num 100) \<le> Num 1
   \<and> \<not> \<bar>(100 :: real) * (500 / 100) - 502\<bar> \<le> 1"
  by (simp add: newDimensions_def eval64)

section \<open>Properties of the actions\<close>

lemma awaitedFile_Rejected: "awaitedFile prefix (Rejected err) env = Inl err"
  by (simp add: awaitedFile_def)

lemma handleGenerate_keeps_history:
  "history (fst (handleGenerate st)) = history st
   \<and> historyIndex (fst (handleGenerate st)) = historyIndex st"
  by (simp add: handleGenerate_def split: option.split)

lemma handleApplyFilter_keeps_history:
  "history (fst (handleApplyFilter p st)) = history st
   \<and> historyIndex (fst (handleApplyFilter p st)) = historyIndex st"
  by (simp add: handleApplyFilter_def split: option.split)

lemma handleApplyAdjustment_keeps_history:
  "history (fst (handleApplyAdjustment p st)) = history st
   \<and> historyIndex (fst (handleApplyAdjustment p st)) = historyIndex st"
  by (simp add: handleApplyAdjustment_def split: option.split)

lemma handleApplyExpand_keeps_history:
  "history (fst (handleApplyExpand imgRef imageContainerRef st)) = history st
   \<and> historyIndex (fst (handleApplyExpand imgRef imageContainerRef st)) = historyIndex st"
  by (simp add: handleApplyExpand_def Let_def)

lemma handleUpscale_keeps_history:
  "history (fst (handleUpscale st)) = history st
   \<and> historyIndex (fst (handleUpscale st)) = historyIndex st"
  by (simp add: handleUpscale_def split: option.split)

lemma rejected_keeps_history:
  "history (handleGenerate_settled h i (Rejected err) env st) = history st
   \<and> historyIndex (handleGenerate_settled h i (Rejected err) env st) = historyIndex st"
  "history (handleApplyFilter_settled h i (Rejected err) env st) = history st
   \<and> historyIndex (handleApplyFilter_settled h i (Rejected err) env st) = historyIndex st"
  "history (handleApplyAdjustment_settled h i (Rejected err) env st) = history st
   \<and> historyIndex (handleApplyAdjustment_settled h i (Rejected err) env st) = historyIndex st"
  "history (handleApplyExpand_settled h i (Rejected err) env st) = history st
   \<and> historyIndex (handleApplyExpand_settled h i (Rejected err) env st) = historyIndex st"
  "history (handleUpscale_settled h i (Rejected err) env st) = history st
   \<and> historyIndex (handleUpscale_settled h i (Rejected err) env st) = historyIndex st"
  by (simp_all add: handleGenerate_settled_def handleApplyFilter_settled_def
      handleApplyAdjustment_settled_def handleApplyExpand_settled_def
      handleUpscale_settled_def awaitedFile_Rejected)

text \<open>
  Claim C2. For each action that calls the external collaborator (retouch-generate,
  filter-apply, adjustment-apply, expand-apply, upscale): when the call rejects, the
  history sequence and the cursor after the action are those before it. The part of the
  handler before the call leaves them alone, and so does the part that runs on the
  rejection, in whatever state it finds.
\<close>

theorem rejected_action_keeps_history:
  "sameHistory st (handleGenerate_settled h i (Rejected err) env (fst (handleGenerate st)))
   \<and> sameHistory st
       (handleApplyFilter_settled h i (Rejected err) env (fst (handleApplyFilter p st)))
   \<and> sameHistory st
       (handleApplyAdjustment_settled h i (Rejected err) env
          (fst (handleApplyAdjustment p st)))
   \<and> sameHistory st
       (handleApplyExpand_settled h i (Rejected err) env
          (fst (handleApplyExpand imgRef imageContainerRef st)))
   \<and> sameHistory st (handleUpscale_settled h i (Rejected err) env (fst (handleUpscale st)))
   \<and> sameHistory st (handleGenerate_settled h i (Rejected err) env st)
   \<and> sameHistory st (handleApplyFilter_settled h i (Rejected err) env st)
   \<and> sameHistory st (handleApplyAdjustment_settled h i (Rejected err) env st)
   \<and> sameHistory st (handleApplyExpand_settled h i (Rejected err) env st)
   \<and> sameHistory st (handleUpscale_settled h i (Rejected err) env st)"
  unfolding sameHistory_def
  by (simp add: rejected_keeps_history handleGenerate_keeps_history
      handleApplyFilter_keeps_history handleApplyAdjustment_keeps_history
      handleApplyExpand_keeps_history handleUpscale_keeps_history)

lemma settle_Rejected_keeps_history:
  "sameHistory (app sys) (app (settle k (Rejected err) env sys))"
  by (simp add: settle_def settled_def sameHistory_def rejected_keeps_history
      split: Call.split)

lemma isLoading_disabled: "isLoading st \<Longrightarrow> disabled imgRef c st"
  by (cases c) (simp_all add: disabled_def)

lemma disabled_activate: "disabled imgRef c (app sys) \<Longrightarrow> activate imgRef cref c sys = sys"
  by (simp add: activate_def)

text \<open>
  Claim C8. The handlers check no busy flag themselves; the gate is the \<open>disabled\<close>
  attribute of the submitting controls. While \<open>isLoading\<close> is set, a submission through
  any of them (Generate, Enter in the prompt box, Apply Filter, Apply Adjustment,
  Generate Expansion, Upscale) is ignored, and while \<open>isUpscaling\<close> is set a submission
  of Upscale is ignored: no call to the collaborator is made and no state, the history
  included, changes.
\<close>

theorem busy_gate:
  "(isLoading (app sys) \<longrightarrow> activate imgRef imageContainerRef c sys = sys)
   \<and> (isUpscaling (app sys) \<longrightarrow> activate imgRef imageContainerRef UpscaleButton sys = sys)"
  by (simp add: isLoading_disabled disabled_activate) (simp add: activate_def disabled_def)

lemma exampleSys_generate:
  "activate None None GenerateButton exampleSys =
    \<lparr>app = (app exampleSys)\<lparr>isLoading := True\<rparr>,
     inFlight = [\<lparr>call = generateRetouchedImage imageA ''sky'' None,
                  capturedHistory = [imageA], capturedIndex = 0\<rparr>]\<rparr>"
  by (simp add: activate_def rendered_def disabled_def onActivate_def editorShown_def
      errorShown_def handleGenerate_def currentImage_def at_or_null_def exampleSys_def
      initialState_def trim_def isWhiteSpace_def)

lemma exampleSys_upscale:
  "activate None None UpscaleButton exampleSys =
    \<lparr>app = (app exampleSys)\<lparr>isUpscaling := True\<rparr>,
     inFlight = [\<lparr>call = upscaleImage imageA,
                  capturedHistory = [imageA], capturedIndex = 0\<rparr>]\<rparr>"
  by (simp add: activate_def rendered_def disabled_def onActivate_def editorShown_def
      errorShown_def handleUpscale_def currentImage_def at_or_null_def exampleSys_def
      initialState_def)

theorem busy_gate_witness:
  "isLoading (app (activate None None GenerateButton exampleSys))
   \<and> activate None None GenerateButton (activate None None GenerateButton exampleSys)
      = activate None None GenerateButton exampleSys
   \<and> length (inFlight (activate None None GenerateButton
        (activate None None GenerateButton exampleSys))) = 1
   \<and> isUpscaling (app (activate None None UpscaleButton exampleSys))
   \<and> activate None None UpscaleButton (activate None None UpscaleButton exampleSys)
      = activate None None UpscaleButton exampleSys"
  using busy_gate [of "activate None None GenerateButton exampleSys" None None GenerateButton]
    busy_gate [of "activate None None UpscaleButton exampleSys" None None GenerateButton]
  by (simp add: exampleSys_generate exampleSys_upscale)

lemma exampleSys_upscale_generate:
  "activate None None GenerateButton (activate None None UpscaleButton exampleSys) =
    \<lparr>app = (app exampleSys)\<lparr>isUpscaling := True, isLoading := True\<rparr>,
     inFlight = [\<lparr>call = upscaleImage imageA,
                  capturedHistory = [imageA], capturedIndex = 0\<rparr>,
                 \<lparr>call = generateRetouchedImage imageA ''sky'' None,
                  capturedHistory = [imageA], capturedIndex = 0\<rparr>]\<rparr>"
  unfolding exampleSys_upscale
  by (simp add: activate_def rendered_def disabled_def onActivate_def editorShown_def
      errorShown_def handleGenerate_def currentImage_def at_or_null_def exampleSys_def
      initialState_def trim_def isWhiteSpace_def)

lemma exampleSys_generate_rejected:
  "tryAgain (settle 1 (Rejected (Error ''blocked'')) env
      (activate None None GenerateButton (activate None None UpscaleButton exampleSys))) =
    \<lparr>app = app exampleSys,
     inFlight = [\<lparr>call = upscaleImage imageA,
                  capturedHistory = [imageA], capturedIndex = 0\<rparr>]\<rparr>"
  unfolding exampleSys_upscale_generate
  by (simp add: settle_def settled_def handleGenerate_settled_def awaitedFile_def
      tryAgain_def handleTryAgain_def errorShown_def errorMessage_def exampleSys_def
      initialState_def)

lemma exampleSys_upscale_again:
  "map call (inFlight (activate None None UpscaleButton
      (tryAgain (settle 1 (Rejected (Error ''blocked'')) env
        (activate None None GenerateButton
          (activate None None UpscaleButton exampleSys))))))
    = [upscaleImage imageA, upscaleImage imageA]"
  unfolding exampleSys_generate_rejected
  by (simp add: activate_def rendered_def disabled_def onActivate_def editorShown_def
      errorShown_def handleUpscale_def currentImage_def at_or_null_def exampleSys_def
      initialState_def)

text \<open>
  The calls in flight are not limited to one. Upscale sets \<open>isUpscaling\<close> only, and the
  Generate button looks at \<open>isLoading\<close> only: after a click on Upscale and a click on
  Generate, both calls are in flight. And the gate follows the flags, not the calls: when
  that retouch call is rejected, "Try Again" on the error view clears all flags while the
  upscale call is still in flight, and a second click on Upscale submits the same action
  once more.
\<close>

theorem two_actions_in_flight:
  "map call (inFlight (activate None None GenerateButton
      (activate None None UpscaleButton exampleSys)))
    = [upscaleImage imageA, generateRetouchedImage imageA ''sky'' None]
   \<and> map call (inFlight (activate None None UpscaleButton
      (tryAgain (settle 1 (Rejected (Error ''blocked'')) exampleRuntime
        (activate None None GenerateButton
          (activate None None UpscaleButton exampleSys))))))
    = [upscaleImage imageA, upscaleImage imageA]"
  by (intro conjI) (simp add: exampleSys_upscale_generate, rule exampleSys_upscale_again)

end
